theory Spec2Isabelle
  imports Complex_Main "HOL-Library.AList"
begin

section \<open>Values\<close>

text \<open>
  The program is Python on top of torch, torchmetrics and pandas. Floating-point numbers
  are modelled by the reals, with one extra value for the NaN that an accumulator gives
  when it divides zero by zero; the rounding of sums, differences and quotients is not
  modelled. A tensor is modelled by the list of its elements (a one-dimensional tensor, or
  any tensor flattened): every tensor operation the metrics use is elementwise or a sum
  over all elements.
\<close>

datatype pyfloat = Float real | NaN

type_synonym tensor = "real list"

datatype error =
  ZeroDivisionError | AttributeError | TypeError | RuntimeError | ValueError
  | IndexError | FileNotFoundError | OSError | UnpicklingError

text \<open>\<^verbatim>\<open>torch.clamp_min(x, c)\<close>, elementwise.\<close>

definition clamp_min :: "tensor \<Rightarrow> real \<Rightarrow> tensor" where
  "clamp_min x c = map (\<lambda>v. max v c) x"

text \<open>
  \<^verbatim>\<open>torch.log10(x)\<close>, elementwise. The logarithm that torch computes for one float is a
  float again, the real logarithm rounded by the platform's routine: on float32 it gives
  \<open>1.9542425\<close> for \<open>90\<close> and \<open>0.9542425\<close> for \<open>9\<close>, whose difference is
  \<open>0.99999994\<close> and not \<open>1\<close>. So the function on one element is a parameter,
  \<open>lg\<close>, and nothing is assumed of it; the real logarithm \<open>log 10\<close> is the instance
  without rounding.
\<close>

definition log10 :: "(real \<Rightarrow> real) \<Rightarrow> tensor \<Rightarrow> tensor" where
  "log10 lg x = map lg x"

text \<open>
  A binary elementwise operation of torch on one-dimensional tensors: equal sizes go
  elementwise, a tensor of one element is broadcast against the other, and any other pair
  of sizes raises RuntimeError.
\<close>

definition broadcast_op :: "(real \<Rightarrow> real \<Rightarrow> real) \<Rightarrow> tensor \<Rightarrow> tensor \<Rightarrow> error + tensor" where
  "broadcast_op f xs ys =
     (if length xs = length ys then Inr (map2 f xs ys)
      else if length xs = 1 then Inr (map (f (hd xs)) ys)
      else if length ys = 1 then Inr (map (\<lambda>x. f x (hd ys)) xs)
      else Inl RuntimeError)"

definition tensor_div :: "tensor \<Rightarrow> tensor \<Rightarrow> error + tensor" where
  "tensor_div = broadcast_op (/)"

definition maximum :: "tensor \<Rightarrow> tensor \<Rightarrow> error + tensor" where
  "maximum = broadcast_op max"

section \<open>Metric accumulators\<close>

subsection \<open>The accumulators of torchmetrics that the repository builds on\<close>

text \<open>
  \<^verbatim>\<open>tm.MeanMetric\<close> keeps the two states \<open>mean_value\<close> and \<open>weight\<close>, both starting
  at zero. \<^verbatim>\<open>update(value, weight=1.0)\<close> returns at once on a tensor without elements;
  otherwise it broadcasts the weight to the shape of the value, adds the sum of
  \<open>value * weight\<close> to \<open>mean_value\<close> and the sum of the broadcast weight to \<open>weight\<close>.
  \<^verbatim>\<open>compute()\<close> divides the one by the other; before any update that is 0/0, a NaN.
  The functions are written over the record scheme, so that they apply to a subclass's
  state as well.
\<close>

record MeanMetric =
  mean_value :: real
  weight :: real

definition MeanMetric_update :: "tensor \<Rightarrow> real \<Rightarrow> 'a MeanMetric_scheme \<Rightarrow> 'a MeanMetric_scheme" where
  "MeanMetric_update val w m =
     (if val = [] then m
      else m\<lparr>mean_value := mean_value m + sum_list (map (\<lambda>v. v * w) val),
             weight := weight m + sum_list (map (\<lambda>v. w) val)\<rparr>)"

definition MeanMetric_compute :: "'a MeanMetric_scheme \<Rightarrow> pyfloat" where
  "MeanMetric_compute m = (if weight m = 0 then NaN else Float (mean_value m / weight m))"

definition MeanMetric_reset :: "'a MeanMetric_scheme \<Rightarrow> 'a MeanMetric_scheme" where
  "MeanMetric_reset m = m\<lparr>mean_value := 0, weight := 0\<rparr>"

text \<open>
  \<^verbatim>\<open>tm.MeanAbsoluteError\<close> keeps \<open>sum_abs_error\<close> and the element count \<open>total\<close>.
  \<^verbatim>\<open>update(preds, target)\<close> raises RuntimeError when the two shapes differ, and
  otherwise adds the sum of \<open>|preds - target|\<close> and the number of elements of the target.
\<close>

record MeanAbsoluteError =
  sum_abs_error :: real
  total :: nat

definition MeanAbsoluteError_update ::
  "tensor \<Rightarrow> tensor \<Rightarrow> MeanAbsoluteError \<Rightarrow> error + MeanAbsoluteError" where
  "MeanAbsoluteError_update preds target m =
     (if length preds \<noteq> length target then Inl RuntimeError
      else Inr (m\<lparr>sum_abs_error := sum_abs_error m + sum_list (map2 (\<lambda>p t. \<bar>p - t\<bar>) preds target),
                  total := total m + length target\<rparr>))"

definition MeanAbsoluteError_compute :: "MeanAbsoluteError \<Rightarrow> pyfloat" where
  "MeanAbsoluteError_compute m =
     (if total m = 0 then NaN else Float (sum_abs_error m / real (total m)))"

definition MeanAbsoluteError_reset :: "MeanAbsoluteError \<Rightarrow> MeanAbsoluteError" where
  "MeanAbsoluteError_reset m = m\<lparr>sum_abs_error := 0, total := 0\<rparr>"

subsection \<open>metrics/log10\_average\_error.py\<close>

text \<open>
  \<^verbatim>\<open>class Log10AverageError(tm.MeanAbsoluteError)\<close>: the state is the parent's, and
  \<^verbatim>\<open>update\<close> clamps both tensors to the floor \<open>1e-6\<close>, takes base-10 logarithms and calls
  the parent's update.
\<close>

definition Log10AverageError_update ::
  "(real \<Rightarrow> real) \<Rightarrow> tensor \<Rightarrow> tensor \<Rightarrow> MeanAbsoluteError \<Rightarrow> error + MeanAbsoluteError" where
  "Log10AverageError_update lg preds target m =
     (let preds = clamp_min preds (1 / 10 ^ 6);
          target = clamp_min target (1 / 10 ^ 6)
      in MeanAbsoluteError_update (log10 lg preds) (log10 lg target) m)"

text \<open>The absolute error of the logarithms of one element, as \<open>update\<close> sums it.\<close>

definition log10_error :: "(real \<Rightarrow> real) \<Rightarrow> real \<Rightarrow> real \<Rightarrow> real" where
  "log10_error lg p t = \<bar>lg (max p (1 / 10 ^ 6)) - lg (max t (1 / 10 ^ 6))\<bar>"

subsection \<open>metrics/threshold\_accuracy.py\<close>

text \<open>
  \<^verbatim>\<open>class ThresholdAccuracy(tm.MeanMetric)\<close> with the registered buffer \<open>threshold\<close>:
  the record extends the parent's. \<^verbatim>\<open>update\<close> clamps both tensors to \<open>1e-6\<close>, takes
  the elementwise maximum of the two quotients, turns it into a 0/1 mask by comparing with
  the threshold, and hands the mask to the parent's update with the default weight.
\<close>

record ThresholdAccuracy = MeanMetric +
  threshold :: real

definition ThresholdAccuracy_init :: "real \<Rightarrow> ThresholdAccuracy" where
  "ThresholdAccuracy_init thr = \<lparr>mean_value = 0, weight = 0, threshold = thr\<rparr>"

definition ThresholdAccuracy_update ::
  "tensor \<Rightarrow> tensor \<Rightarrow> ThresholdAccuracy \<Rightarrow> error + ThresholdAccuracy" where
  "ThresholdAccuracy_update preds target m =
     (let preds = clamp_min preds (1 / 10 ^ 6);
          target = clamp_min target (1 / 10 ^ 6)
      in case tensor_div preds target of Inl e \<Rightarrow> Inl e | Inr a \<Rightarrow>
         (case tensor_div target preds of Inl e \<Rightarrow> Inl e | Inr b \<Rightarrow>
         (case maximum a b of Inl e \<Rightarrow> Inl e | Inr mx \<Rightarrow>
            Inr (MeanMetric_update (map (\<lambda>r. if r < threshold m then 1 else 0) mx) 1 m))))"

text \<open>The ratio of one element after clamping, as \<open>update\<close> compares it with the threshold.\<close>

definition ratio :: "real \<Rightarrow> real \<Rightarrow> real" where
  "ratio p t = max (max p (1 / 10 ^ 6) / max t (1 / 10 ^ 6)) (max t (1 / 10 ^ 6) / max p (1 / 10 ^ 6))"

text \<open>How many elements of a batch have a ratio strictly below the threshold.\<close>

definition below :: "real \<Rightarrow> tensor \<Rightarrow> tensor \<Rightarrow> nat" where
  "below thr preds target = length (filter (\<lambda>(p, t). ratio p t < thr) (zip preds target))"

subsection \<open>A collection of metrics\<close>

text \<open>
  The trainer holds a \<^verbatim>\<open>tm.MetricCollection\<close>: named metrics, kept in a fixed order, and a
  prefix that \<^verbatim>\<open>items()\<close> puts before every name. A metric is one of the two classes
  above, or any other accumulator, given by its update and compute functions, its default
  states and its current states, each state under its name.
\<close>

datatype metric =
  Log10AverageError MeanAbsoluteError
  | ThresholdAccuracy ThresholdAccuracy
  | OtherMetric "tensor \<Rightarrow> tensor \<Rightarrow> (string \<times> tensor) list \<Rightarrow> error + (string \<times> tensor) list"
      "(string \<times> tensor) list \<Rightarrow> pyfloat" "(string \<times> tensor) list" "(string \<times> tensor) list"

fun metric_update :: "(real \<Rightarrow> real) \<Rightarrow> tensor \<Rightarrow> tensor \<Rightarrow> metric \<Rightarrow> error + metric" where
  "metric_update lg preds target (Log10AverageError m) =
     (case Log10AverageError_update lg preds target m of
        Inl e \<Rightarrow> Inl e | Inr m' \<Rightarrow> Inr (Log10AverageError m'))"
| "metric_update lg preds target (ThresholdAccuracy m) =
     (case ThresholdAccuracy_update preds target m of
        Inl e \<Rightarrow> Inl e | Inr m' \<Rightarrow> Inr (ThresholdAccuracy m'))"
| "metric_update lg preds target (OtherMetric upd cmp dflt st) =
     (case upd preds target st of
        Inl e \<Rightarrow> Inl e | Inr st' \<Rightarrow> Inr (OtherMetric upd cmp dflt st'))"

fun metric_compute :: "metric \<Rightarrow> pyfloat" where
  "metric_compute (Log10AverageError m) = MeanAbsoluteError_compute m"
| "metric_compute (ThresholdAccuracy m) = MeanMetric_compute m"
| "metric_compute (OtherMetric upd cmp dflt st) = cmp st"

fun metric_reset :: "metric \<Rightarrow> metric" where
  "metric_reset (Log10AverageError m) = Log10AverageError (MeanAbsoluteError_reset m)"
| "metric_reset (ThresholdAccuracy m) = ThresholdAccuracy (MeanMetric_reset m)"
| "metric_reset (OtherMetric upd cmp dflt st) = OtherMetric upd cmp dflt dflt"

text \<open>
  The states of a metric under the names they were registered with (\<^verbatim>\<open>add_state\<close>), and
  \<^verbatim>\<open>setattr(metric, name, value)\<close> for a state name. The threshold of
  \<^verbatim>\<open>ThresholdAccuracy\<close> is a registered buffer and no state. The two classes keep scalar
  states; a value of another shape does not fit their records and is not stored.
\<close>

fun metric_state :: "metric \<Rightarrow> (string \<times> tensor) list" where
  "metric_state (Log10AverageError m) =
     [(''sum_abs_error'', [sum_abs_error m]), (''total'', [real (total m)])]"
| "metric_state (ThresholdAccuracy m) =
     [(''mean_value'', [mean_value m]), (''weight'', [weight m])]"
| "metric_state (OtherMetric upd cmp dflt st) = st"

fun metric_setattr :: "string \<Rightarrow> tensor \<Rightarrow> metric \<Rightarrow> metric" where
  "metric_setattr k v (Log10AverageError m) =
     (case v of
        [x] \<Rightarrow> if k = ''sum_abs_error'' then Log10AverageError (m\<lparr>sum_abs_error := x\<rparr>)
               else if k = ''total'' then Log10AverageError (m\<lparr>total := nat \<lfloor>x\<rfloor>\<rparr>)
               else Log10AverageError m
      | _ \<Rightarrow> Log10AverageError m)"
| "metric_setattr k v (ThresholdAccuracy m) =
     (case v of
        [x] \<Rightarrow> if k = ''mean_value'' then ThresholdAccuracy (m\<lparr>mean_value := x\<rparr>)
               else if k = ''weight'' then ThresholdAccuracy (m\<lparr>weight := x\<rparr>)
               else ThresholdAccuracy m
      | _ \<Rightarrow> ThresholdAccuracy m)"
| "metric_setattr k v (OtherMetric upd cmp dflt st) =
     OtherMetric upd cmp dflt (if k \<in> fst ` set st then AList.update k v st else st)"

text \<open>
  \<^verbatim>\<open>tm.MetricCollection\<close> works with compute groups, and they are on unless the
  constructor is told otherwise. A group is a list of metric names, and at first every
  metric is a group of its own. The first \<^verbatim>\<open>update\<close> updates every metric and then merges
  the groups whose first members have equal states (\<^verbatim>\<open>_merge_compute_groups\<close>); from then
  on \<open>_groups_checked\<close> is set, \<^verbatim>\<open>update\<close> updates only the first member of every group,
  and the other members take the states of the first
  (\<^verbatim>\<open>_compute_groups_create_state_ref\<close>). \<^verbatim>\<open>reset\<close> resets every metric and keeps the
  groups.

  The test for two metrics to have equal states (\<^verbatim>\<open>_equal_metric_states\<close>) is a
  parameter of \<^verbatim>\<open>update\<close>, so that nothing below rests on its tolerances.
\<close>

record MetricCollection =
  collection :: "(string \<times> metric) list"
  prefix :: string
  enable_compute_groups :: bool
  groups_checked :: bool
  groups :: "string list list"

text \<open>\<^verbatim>\<open>tm.MetricCollection(metrics)\<close>, with the metrics in the order of their names.\<close>

definition MetricCollection_init :: "(string \<times> metric) list \<Rightarrow> MetricCollection" where
  "MetricCollection_init ms =
     \<lparr>collection = ms, prefix = [], enable_compute_groups = True, groups_checked = False,
      groups = map (\<lambda>(name, m). [name]) ms\<rparr>"

fun update_all ::
  "(real \<Rightarrow> real) \<Rightarrow> tensor \<Rightarrow> tensor \<Rightarrow> (string \<times> metric) list \<Rightarrow> error + (string \<times> metric) list" where
  "update_all lg preds target [] = Inr []"
| "update_all lg preds target ((name, m) # rest) =
     (case metric_update lg preds target m of Inl e \<Rightarrow> Inl e | Inr m' \<Rightarrow>
      (case update_all lg preds target rest of Inl e \<Rightarrow> Inl e | Inr rest' \<Rightarrow>
         Inr ((name, m') # rest')))"

text \<open>The update of the first member of every group; a group names metrics of the
  collection, and \<^verbatim>\<open>getattr\<close> raises AttributeError for any other name.\<close>

fun update_first_members ::
  "(real \<Rightarrow> real) \<Rightarrow> tensor \<Rightarrow> tensor \<Rightarrow> string list list \<Rightarrow> (string \<times> metric) list
     \<Rightarrow> error + (string \<times> metric) list" where
  "update_first_members lg preds target [] ms = Inr ms"
| "update_first_members lg preds target (cg # rest) ms =
     (case cg of [] \<Rightarrow> Inl IndexError | name # members \<Rightarrow>
      (case map_of ms name of None \<Rightarrow> Inl AttributeError | Some m0 \<Rightarrow>
      (case metric_update lg preds target m0 of Inl e \<Rightarrow> Inl e | Inr m0' \<Rightarrow>
         update_first_members lg preds target rest (AList.update name m0' ms))))"

text \<open>
  \<^verbatim>\<open>_compute_groups_create_state_ref\<close>: in every group, each state of the first member is
  set on every other member.
\<close>

definition copy_state :: "metric \<Rightarrow> metric \<Rightarrow> metric" where
  "copy_state m0 mi = fold (\<lambda>(k, v). metric_setattr k v) (metric_state m0) mi"

definition link_group :: "string list \<Rightarrow> (string \<times> metric) list \<Rightarrow> (string \<times> metric) list" where
  "link_group cg ms =
     (case cg of [] \<Rightarrow> ms | name # members \<Rightarrow>
      (case map_of ms name of None \<Rightarrow> ms
       | Some m0 \<Rightarrow> map (\<lambda>(n, mi). if n \<in> set members then (n, copy_state m0 mi) else (n, mi)) ms))"

definition compute_groups_create_state_ref ::
  "string list list \<Rightarrow> (string \<times> metric) list \<Rightarrow> (string \<times> metric) list" where
  "compute_groups_create_state_ref gs ms = fold link_group gs ms"

text \<open>
  \<^verbatim>\<open>_merge_compute_groups\<close>: the two nested loops look for the first pair of different
  groups whose first members have equal states, the second group is appended to the first
  and removed, and the search starts over; it ends when no pair is found.
\<close>

definition mergeable ::
  "(metric \<Rightarrow> metric \<Rightarrow> bool) \<Rightarrow> (string \<times> metric) list \<Rightarrow> string list list \<Rightarrow> nat \<times> nat \<Rightarrow> bool" where
  "mergeable eq ms gs ij =
     (case ij of (i, j) \<Rightarrow> i \<noteq> j \<and>
        (case (gs ! i, gs ! j) of
           (n1 # r1, n2 # r2) \<Rightarrow>
             (case (map_of ms n1, map_of ms n2) of
                (Some metric1, Some metric2) \<Rightarrow> eq metric1 metric2
              | _ \<Rightarrow> False)
         | _ \<Rightarrow> False))"

definition find_merge ::
  "(metric \<Rightarrow> metric \<Rightarrow> bool) \<Rightarrow> (string \<times> metric) list \<Rightarrow> string list list \<Rightarrow> (nat \<times> nat) option" where
  "find_merge eq ms gs =
     find (mergeable eq ms gs) (List.product [0..<length gs] [0..<length gs])"

function merge_compute_groups ::
  "(metric \<Rightarrow> metric \<Rightarrow> bool) \<Rightarrow> (string \<times> metric) list \<Rightarrow> string list list \<Rightarrow> string list list" where
  "merge_compute_groups eq ms gs =
     (case find_merge eq ms gs of
        None \<Rightarrow> gs
      | Some (i, j) \<Rightarrow>
          merge_compute_groups eq ms
            (let gs' = gs[i := gs ! i @ gs ! j] in take j gs' @ drop (Suc j) gs'))"
  by pat_completeness auto
termination
proof (relation "measure (\<lambda>(eq, ms, gs). length gs)")
  show "wf (measure (\<lambda>(eq, ms, gs). length gs))" by simp
next
  fix eq :: "metric \<Rightarrow> metric \<Rightarrow> bool" and ms :: "(string \<times> metric) list"
    and gs :: "string list list" and x2 :: "nat \<times> nat" and i j :: nat
  assume found: "find_merge eq ms gs = Some x2" and x2: "(i, j) = x2"
  from found x2 have "(i, j) \<in> set (List.product [0..<length gs] [0..<length gs])"
    unfolding find_merge_def find_Some_iff by (metis nth_mem)
  then have "j < length gs" by simp
  then show "((eq, ms, let gs' = gs[i := gs ! i @ gs ! j] in take j gs' @ drop (Suc j) gs'),
              (eq, ms, gs)) \<in> measure (\<lambda>(eq, ms, gs). length gs)"
    by (simp add: Let_def)
qed

declare merge_compute_groups.simps [simp del]

definition MetricCollection_update ::
  "(real \<Rightarrow> real) \<Rightarrow> (metric \<Rightarrow> metric \<Rightarrow> bool) \<Rightarrow> tensor \<Rightarrow> tensor \<Rightarrow> MetricCollection
     \<Rightarrow> error + MetricCollection" where
  "MetricCollection_update lg eq preds target mc =
     (if groups_checked mc then
        (case update_first_members lg preds target (groups mc) (collection mc) of
           Inl e \<Rightarrow> Inl e
         | Inr ms \<Rightarrow> Inr (mc\<lparr>collection := compute_groups_create_state_ref (groups mc) ms\<rparr>))
      else
        (case update_all lg preds target (collection mc) of
           Inl e \<Rightarrow> Inl e
         | Inr ms \<Rightarrow>
             if enable_compute_groups mc then
               (let gs = merge_compute_groups eq ms (groups mc)
                in Inr (mc\<lparr>collection := compute_groups_create_state_ref gs ms,
                           groups := gs, groups_checked := True\<rparr>))
             else Inr (mc\<lparr>collection := ms\<rparr>)))"

text \<open>
  One test for equal states, the one the instance below takes: both metrics have states,
  under the same names, and every state of the first has the shape of the state of that
  name of the second and is close to it as \<^verbatim>\<open>torch.allclose\<close> with its default tolerances
  judges.
\<close>

definition allclose :: "tensor \<Rightarrow> tensor \<Rightarrow> bool" where
  "allclose a b = list_all2 (\<lambda>x y. \<bar>x - y\<bar> \<le> 1 / 10 ^ 8 + (1 / 10 ^ 5) * \<bar>y\<bar>) a b"

definition all_states_close :: "metric \<Rightarrow> metric \<Rightarrow> bool" where
  "all_states_close metric1 metric2 =
     (metric_state metric1 \<noteq> [] \<and> metric_state metric2 \<noteq> []
      \<and> set (map fst (metric_state metric1)) = set (map fst (metric_state metric2))
      \<and> list_all (\<lambda>(key, state1). case map_of (metric_state metric2) key of
                                        None \<Rightarrow> False
                                      | Some state2 \<Rightarrow> allclose state1 state2)
           (metric_state metric1))"

definition reset_all :: "(string \<times> metric) list \<Rightarrow> (string \<times> metric) list" where
  "reset_all ms = map (\<lambda>(name, m). (name, metric_reset m)) ms"

definition MetricCollection_reset :: "MetricCollection \<Rightarrow> MetricCollection" where
  "MetricCollection_reset mc =
     mc\<lparr>collection :=
          (if enable_compute_groups mc \<and> groups_checked mc
           then compute_groups_create_state_ref (groups mc) (reset_all (collection mc))
           else reset_all (collection mc))\<rparr>"

text \<open>
  \<^verbatim>\<open>items()\<close> passes the states of the first members on to the other members once more
  and then gives every metric under its name with the prefix before it.
\<close>

definition MetricCollection_items :: "MetricCollection \<Rightarrow> (string \<times> metric) list" where
  "MetricCollection_items mc =
     map (\<lambda>(name, m). (prefix mc @ name, m))
       (compute_groups_create_state_ref (groups mc) (collection mc))"

text \<open>
  Two notions for the statements below. The grouping of a collection is settled when no
  later \<^verbatim>\<open>update\<close> can change it: the groups have been checked, or compute groups are
  off. A collection \<open>mc'\<close> continues \<open>mc\<close> when it has the same metrics up to their
  states, the same prefix and the same switch, and, where the grouping of \<open>mc\<close> was
  settled, the same groups.
\<close>

definition groups_settled :: "MetricCollection \<Rightarrow> bool" where
  "groups_settled mc = (groups_checked mc \<or> \<not> enable_compute_groups mc)"

definition continues :: "MetricCollection \<Rightarrow> MetricCollection \<Rightarrow> bool" where
  "continues mc mc' =
     (reset_all (collection mc') = reset_all (collection mc)
      \<and> prefix mc' = prefix mc
      \<and> enable_compute_groups mc' = enable_compute_groups mc
      \<and> (groups_settled mc \<longrightarrow>
           groups mc' = groups mc \<and> groups_checked mc' = groups_checked mc))"

section \<open>The EMA weight tracker (train.py)\<close>

text \<open>
  \<^verbatim>\<open>ema_avg\<close> is the lambda of train.py, applied by torch to one parameter tensor and its
  shadow; \<open>ema_weight\<close> is the configuration constant it closes over, and the third
  argument (the number of updates so far) is ignored.
\<close>

definition ema_avg :: "real \<Rightarrow> tensor \<Rightarrow> tensor \<Rightarrow> nat \<Rightarrow> tensor" where
  "ema_avg ema_weight averaged_model_parameter model_parameter n =
     map2 (\<lambda>a p. p * (1 - ema_weight) + a * ema_weight) averaged_model_parameter model_parameter"

text \<open>
  \<^verbatim>\<open>optim.swa_utils.AveragedModel(model, avg_fn=ema_avg)\<close> is torch's: it holds a deep copy
  of the model (here the list of its parameter tensors) and the counter \<open>n_averaged\<close>,
  zero at first. \<^verbatim>\<open>update_parameters(model)\<close> walks the two parameter lists together: while
  the counter is zero it copies the model's tensor into the shadow, afterwards it stores
  what \<open>avg_fn\<close> returns; then it adds one to the counter.
\<close>

record AveragedModel =
  module :: "tensor list"
  n_averaged :: nat

definition AveragedModel_init :: "tensor list \<Rightarrow> AveragedModel" where
  "AveragedModel_init model_parameters = \<lparr>module = model_parameters, n_averaged = 0\<rparr>"

definition update_parameters ::
  "(tensor \<Rightarrow> tensor \<Rightarrow> nat \<Rightarrow> tensor) \<Rightarrow> tensor list \<Rightarrow> AveragedModel \<Rightarrow> AveragedModel" where
  "update_parameters avg_fn model_parameters am =
     \<lparr>module = map2 (\<lambda>p_swa p_model.
          if n_averaged am = 0 then p_model else avg_fn p_swa p_model (n_averaged am))
          (module am) model_parameters,
      n_averaged = n_averaged am + 1\<rparr>"

section \<open>The trainer (trainers/base\_trainer.py)\<close>

subsection \<open>Model, optimizer, checkpoint, files\<close>

text \<open>
  A model is known to the trainer by its \<^verbatim>\<open>state_dict()\<close>, names and tensors in order.
  \<^verbatim>\<open>load_state_dict\<close> is torch's, in its default strict mode: a missing or unexpected key
  or a tensor of another size raises RuntimeError; otherwise every tensor of the model
  takes the loaded value.
\<close>

type_synonym state_dict = "(string \<times> tensor) list"

definition load_state_dict :: "state_dict \<Rightarrow> state_dict \<Rightarrow> error + state_dict" where
  "load_state_dict own loaded =
     (if set (map fst own) \<noteq> set (map fst loaded) then Inl RuntimeError
      else if list_ex (\<lambda>(k, v). case map_of loaded k of None \<Rightarrow> True
                                | Some v' \<Rightarrow> length v' \<noteq> length v) own then Inl RuntimeError
      else Inr (map (\<lambda>(k, v). (k, case map_of loaded k of None \<Rightarrow> v | Some v' \<Rightarrow> v')) own))"

text \<open>
  An optimizer is known by its \<^verbatim>\<open>state_dict()\<close>: the parameter groups, each with its
  learning rate, its other hyperparameters and the indices of its parameters, and the
  per-parameter state. \<^verbatim>\<open>load_state_dict\<close> is torch's: another number of groups or another
  group size raises ValueError; otherwise the loaded groups are taken with the optimizer's
  own parameter lists, and the loaded state is re-keyed from the saved parameter indices
  to the optimizer's own.
\<close>

record param_group =
  lr :: real
  hyperparameters :: "(string \<times> real) list"
  params :: "nat list"

record Optimizer =
  param_groups :: "param_group list"
  state :: "(nat \<times> state_dict) list"

definition Optimizer_load_state_dict :: "Optimizer \<Rightarrow> Optimizer \<Rightarrow> error + Optimizer" where
  "Optimizer_load_state_dict own loaded =
     (let groups = param_groups own; saved_groups = param_groups loaded
      in if length groups \<noteq> length saved_groups then Inl ValueError
         else if map (\<lambda>g. length (params g)) groups \<noteq> map (\<lambda>g. length (params g)) saved_groups
           then Inl ValueError
         else
           (let id_map = map_of (rev (zip (concat (map params saved_groups))
                                         (concat (map params groups))))
            in Inr \<lparr>param_groups = map2 (\<lambda>g new_group. new_group\<lparr>params := params g\<rparr>)
                                       groups saved_groups,
                    state = map (\<lambda>(k, v). case id_map k of Some p \<Rightarrow> (p, v) | None \<Rightarrow> (k, v))
                                (state loaded)\<rparr>))"

text \<open>
  A row of the history table is the dict that \<^verbatim>\<open>train_one_epoch\<close> builds: keys in
  insertion order, a later value for a key replacing the earlier one in place.
\<close>

datatype cell = IntCell int | FloatCell pyfloat

type_synonym row = "(string \<times> cell) list"

definition dict_merge :: "row \<Rightarrow> row \<Rightarrow> row" where
  "dict_merge d e = fold (\<lambda>(k, v) acc. AList.update k v acc) e d"

record checkpoint =
  ckpt_model :: state_dict
  ckpt_optimizer :: Optimizer
  ckpt_history :: "row list option"

text \<open>
  The file system maps a path to what the file holds: a pickled checkpoint (torch.save),
  a table (to\_csv), or the first \<open>n\<close> bytes of one of these when the write did not
  finish. Both writers open the target path itself for writing, which empties the file,
  and then write into it. Whether a write finishes is the environment's choice.
\<close>

datatype file_content = Pickle checkpoint | Csv "row list" | Truncated file_content nat

type_synonym filesystem = "string \<Rightarrow> file_content option"

datatype write_outcome = Completes | FailsAfter nat | CannotOpen

definition write_file ::
  "write_outcome \<Rightarrow> string \<Rightarrow> file_content \<Rightarrow> filesystem \<Rightarrow> error option \<times> filesystem" where
  "write_file outcome path content fs =
     (case outcome of
        Completes \<Rightarrow> (None, fs(path \<mapsto> content))
      | FailsAfter n \<Rightarrow> (Some OSError, fs(path \<mapsto> Truncated content n))
      | CannotOpen \<Rightarrow> (Some OSError, fs))"

subsection \<open>What the trainer prints and logs\<close>

text \<open>
  One constructor per print statement, holding the values that fill its f-string.
  \<open>str\<close> and \<open>os.path.join\<close> are Python's, for the checkpoint file names.
\<close>

datatype phase = Training | Validating

datatype line =
  Progress phase int int int string
  | EpochHeader int int string
  | ResultLine row
  | SavingCheckpoint string

record world =
  stdout :: "line list"
  tensorboard :: "(string \<times> pyfloat \<times> int) list"
  files :: filesystem

definition print :: "line \<Rightarrow> world \<Rightarrow> world" where
  "print l w = w\<lparr>stdout := stdout w @ [l]\<rparr>"

text \<open>The batch indices of the progress reports among the printed lines, in order.\<close>

definition reported :: "line list \<Rightarrow> int list" where
  "reported ls = concat (map (\<lambda>l. case l of Progress ph epoch i n s \<Rightarrow> [i] | _ \<Rightarrow> []) ls)"

definition add_scalar :: "string \<Rightarrow> pyfloat \<Rightarrow> int \<Rightarrow> world \<Rightarrow> world" where
  "add_scalar tag v step w = w\<lparr>tensorboard := tensorboard w @ [(tag, v, step)]\<rparr>"

definition digit :: "nat \<Rightarrow> char" where
  "digit n = ''0123456789'' ! n"

function str_nat :: "nat \<Rightarrow> string" where
  "str_nat n = (if n < 10 then [digit n] else str_nat (n div 10) @ [digit (n mod 10)])"
  by pat_completeness auto
termination
  by (relation "measure id") auto

declare str_nat.simps [simp del]

definition str :: "int \<Rightarrow> string" where
  "str i = (if i < 0 then CHR ''-'' # str_nat (nat (- i)) else str_nat (nat i))"

definition path_join :: "string \<Rightarrow> string \<Rightarrow> string" where
  "path_join a b =
     (if b \<noteq> [] \<and> hd b = CHR ''/'' then b
      else if a = [] \<or> last a = CHR ''/'' then a @ b
      else a @ ''/'' @ b)"

definition int_of_float :: "real \<Rightarrow> int" where
  "int_of_float x = (if 0 \<le> x then \<lfloor>x\<rfloor> else \<lceil>x\<rceil>)"

subsection \<open>The trainer's state and its collaborators\<close>

text \<open>
  The fields of \<^verbatim>\<open>BaseTrainer\<close>. The model, the optimizer, the criterion and the metrics
  may be None, as the constructor and \<^verbatim>\<open>load_checkpoint\<close> allow. \<open>training\<close> is the
  mode that \<^verbatim>\<open>set_train_mode\<close> sets. The history is the DataFrame, a list of rows.
  The timer is an object of \<^verbatim>\<open>utils.timer.Timer\<close>, which is not among the sources:
  its state is a type parameter, and its methods are collaborators.
\<close>

record 'tm trainer =
  model :: "state_dict option"
  training :: bool
  optimizer :: "Optimizer option"
  criterion :: "(tensor \<Rightarrow> tensor \<Rightarrow> real) option"
  metrics :: "MetricCollection option"
  loss_logger :: MeanMetric
  timer :: 'tm
  history :: "row list option"

text \<open>
  The collaborators, taken as parameters: the model's forward pass (in training or in
  evaluation mode); the joint effect of \<^verbatim>\<open>zero_grad\<close>, \<^verbatim>\<open>loss.backward()\<close> and
  \<^verbatim>\<open>optimizer.step()\<close> on the model and the optimizer; the step of the learning-rate
  scheduler on its own state and the optimizer; the methods of the Timer; for every
  path, how a write to it ends; torch's logarithm of one element; and the test of
  torchmetrics for two metrics to have equal states.
\<close>

record ('tm, 'sc) env =
  forward :: "bool \<Rightarrow> state_dict \<Rightarrow> tensor \<Rightarrow> tensor"
  backward_step :: "bool \<Rightarrow> (tensor \<Rightarrow> tensor \<Rightarrow> real) \<Rightarrow> state_dict \<Rightarrow> Optimizer
                     \<Rightarrow> tensor \<Rightarrow> tensor \<Rightarrow> state_dict \<times> Optimizer"
  scheduler_step :: "'sc \<Rightarrow> Optimizer \<Rightarrow> 'sc \<times> Optimizer"
  Timer :: 'tm
  timer_start :: "'tm \<Rightarrow> 'tm"
  timer_stop :: "'tm \<Rightarrow> real \<times> 'tm"
  timer_reset :: "'tm \<Rightarrow> 'tm"
  timer_call :: "'tm \<Rightarrow> int \<Rightarrow> int \<Rightarrow> string \<times> 'tm"
  disk :: "string \<Rightarrow> write_outcome"
  torch_log10 :: "real \<Rightarrow> real"
  equal_metric_states :: "metric \<Rightarrow> metric \<Rightarrow> bool"

type_synonym batch = "tensor \<times> tensor \<times> string list"

definition BaseTrainer_init ::
  "('tm, 'sc) env \<Rightarrow> state_dict option \<Rightarrow> Optimizer option \<Rightarrow> (tensor \<Rightarrow> tensor \<Rightarrow> real) option
     \<Rightarrow> MetricCollection option \<Rightarrow> 'tm trainer" where
  "BaseTrainer_init E mdl opt crit mets =
     \<lparr>model = mdl, training = True, optimizer = opt, criterion = crit, metrics = mets,
      loss_logger = \<lparr>mean_value = 0, weight = 0\<rparr>, timer = Timer E, history = Some []\<rparr>"

subsection \<open>One batch\<close>

definition set_train_mode :: "bool \<Rightarrow> 'tm trainer \<Rightarrow> error + 'tm trainer" where
  "set_train_mode enable t =
     (case model t of None \<Rightarrow> Inl AttributeError
      | Some m \<Rightarrow> Inr (t\<lparr>training := enable\<rparr>))"

text \<open>\<^verbatim>\<open>self.loss_logger(loss.detach())\<close>: the metric is called with the loss alone, so the
  weight is the default \<open>1.0\<close>.\<close>

definition loss_logger_forward :: "real \<Rightarrow> MeanMetric \<Rightarrow> MeanMetric" where
  "loss_logger_forward loss m = MeanMetric_update [loss] 1 m"

definition train_one_batch ::
  "('tm, 'sc) env \<Rightarrow> tensor \<Rightarrow> tensor \<Rightarrow> 'tm trainer \<Rightarrow> error + real \<times> 'tm trainer" where
  "train_one_batch E img y_true t =
     (case optimizer t of None \<Rightarrow> Inl AttributeError | Some opt \<Rightarrow>
      (case model t of None \<Rightarrow> Inl TypeError | Some m \<Rightarrow>
      (case criterion t of None \<Rightarrow> Inl TypeError | Some crit \<Rightarrow>
        (let y_pred = forward E (training t) m img;
             loss = crit y_pred y_true
         in case backward_step E (training t) crit m opt img y_true of (m', opt') \<Rightarrow>
            (case metrics t of None \<Rightarrow> Inl AttributeError | Some mc \<Rightarrow>
            (case MetricCollection_update (torch_log10 E) (equal_metric_states E) y_pred y_true mc
                 of Inl e \<Rightarrow> Inl e | Inr mc' \<Rightarrow>
               Inr (loss, t\<lparr>model := Some m', optimizer := Some opt',
                            loss_logger := loss_logger_forward loss (loss_logger t),
                            metrics := Some mc'\<rparr>)))))))"

definition val_one_batch ::
  "('tm, 'sc) env \<Rightarrow> tensor \<Rightarrow> tensor \<Rightarrow> 'tm trainer \<Rightarrow> error + real \<times> 'tm trainer" where
  "val_one_batch E img y_true t =
     (case model t of None \<Rightarrow> Inl TypeError | Some m \<Rightarrow>
      (case criterion t of None \<Rightarrow> Inl TypeError | Some crit \<Rightarrow>
        (let y_pred = forward E (training t) m img;
             loss = crit y_pred y_true
         in case metrics t of None \<Rightarrow> Inl AttributeError | Some mc \<Rightarrow>
            (case MetricCollection_update (torch_log10 E) (equal_metric_states E) y_pred y_true mc
                 of Inl e \<Rightarrow> Inl e | Inr mc' \<Rightarrow>
               Inr (loss, t\<lparr>loss_logger := loss_logger_forward loss (loss_logger t),
                            metrics := Some mc'\<rparr>)))))"

subsection \<open>Reading and resetting the accumulators\<close>

fun log_metrics :: "int \<Rightarrow> (string \<times> metric) list \<Rightarrow> row \<times> world \<Rightarrow> row \<times> world" where
  "log_metrics step [] (d, w) = (d, w)"
| "log_metrics step ((name, m) # rest) (d, w) =
     (let v = metric_compute m
      in log_metrics step rest (AList.update name (FloatCell v) d, add_scalar name v step w))"

definition get_metrics_dict ::
  "('tm, 'sc) env \<Rightarrow> string \<Rightarrow> int \<Rightarrow> 'tm trainer \<times> world \<Rightarrow> error + row \<times> 'tm trainer \<times> world" where
  "get_metrics_dict E pfx step s =
     (case s of (t, w) \<Rightarrow>
      (case timer_stop E (timer t) of (time, tm) \<Rightarrow>
        (let loss = MeanMetric_compute (loss_logger t);
             w1 = add_scalar (pfx @ ''loss'') loss step w
         in case metrics t of None \<Rightarrow> Inl AttributeError | Some mc \<Rightarrow>
            (let mc' = mc\<lparr>prefix := pfx\<rparr>
             in case log_metrics step (MetricCollection_items mc') ([], w1) of (ms, w2) \<Rightarrow>
                Inr (dict_merge [(pfx @ ''loss'', FloatCell loss),
                                 (pfx @ ''time'', IntCell (int_of_float time))] ms,
                     t\<lparr>timer := tm, metrics := Some mc'\<rparr>, w2)))))"

definition reset_metrics :: "('tm, 'sc) env \<Rightarrow> 'tm trainer \<Rightarrow> error + 'tm trainer" where
  "reset_metrics E t =
     (case metrics t of None \<Rightarrow> Inl AttributeError
      | Some mc \<Rightarrow> Inr (t\<lparr>timer := timer_reset E (timer t),
                          loss_logger := MeanMetric_reset (loss_logger t),
                          metrics := Some (MetricCollection_reset mc)\<rparr>))"

subsection \<open>One epoch\<close>

text \<open>
  The two \<^verbatim>\<open>for\<close> loops of \<^verbatim>\<open>train_one_epoch\<close> differ in the batch function and in the
  word they print; \<open>batch_loop\<close> is either, by its phase. \<open>i\<close> is the index that
  \<^verbatim>\<open>enumerate(loader, 1)\<close> gives and \<open>n\<close> is \<^verbatim>\<open>len(loader)\<close>. \<^verbatim>\<open>i % verbose\<close> raises
  ZeroDivisionError when \<open>verbose\<close> is zero; otherwise it is HOL's \<open>mod\<close> on the
  integers, whose sign follows the divisor as Python's does.
\<close>

definition one_batch ::
  "('tm, 'sc) env \<Rightarrow> phase \<Rightarrow> tensor \<Rightarrow> tensor \<Rightarrow> 'tm trainer \<Rightarrow> error + real \<times> 'tm trainer" where
  "one_batch E ph img y_true t =
     (case ph of Training \<Rightarrow> train_one_batch E img y_true t
      | Validating \<Rightarrow> val_one_batch E img y_true t)"

fun batch_loop ::
  "('tm, 'sc) env \<Rightarrow> phase \<Rightarrow> int \<Rightarrow> int \<Rightarrow> int \<Rightarrow> int \<Rightarrow> batch list \<Rightarrow> 'tm trainer \<times> world
     \<Rightarrow> error + 'tm trainer \<times> world" where
  "batch_loop E ph epoch verbose n i [] (t, w) = Inr (t, w)"
| "batch_loop E ph epoch verbose n i ((img, y_true, ident) # rest) (t, w) =
     (case one_batch E ph img y_true t of Inl e \<Rightarrow> Inl e | Inr (loss, t1) \<Rightarrow>
        if verbose = 0 then Inl ZeroDivisionError
        else if i mod verbose = 0 then
          (case timer_call E (timer t1) i n of (txt, tm) \<Rightarrow>
             batch_loop E ph epoch verbose n (i + 1) rest
               (t1\<lparr>timer := tm\<rparr>, print (Progress ph epoch i n txt) w))
        else batch_loop E ph epoch verbose n (i + 1) rest (t1, w))"

definition train_one_epoch ::
  "('tm, 'sc) env \<Rightarrow> int \<Rightarrow> batch list \<Rightarrow> batch list \<Rightarrow> int \<Rightarrow> 'tm trainer \<times> world
     \<Rightarrow> error + row \<times> 'tm trainer \<times> world" where
  "train_one_epoch E epoch train_loader val_loader verbose s =
     (case s of (t, w) \<Rightarrow>
      (case set_train_mode True t of Inl e \<Rightarrow> Inl e | Inr t1 \<Rightarrow>
      (case batch_loop E Training epoch verbose (int (length train_loader)) 1 train_loader
              (t1\<lparr>timer := timer_start E (timer t1)\<rparr>, w) of Inl e \<Rightarrow> Inl e | Inr (t2, w2) \<Rightarrow>
      (case get_metrics_dict E ''train/'' epoch (t2, w2) of Inl e \<Rightarrow> Inl e
         | Inr (train_result, t3, w3) \<Rightarrow>
      (case reset_metrics E t3 of Inl e \<Rightarrow> Inl e | Inr t4 \<Rightarrow>
      (case set_train_mode False t4 of Inl e \<Rightarrow> Inl e | Inr t5 \<Rightarrow>
      (case batch_loop E Validating epoch verbose (int (length val_loader)) 1 val_loader
              (t5\<lparr>timer := timer_start E (timer t5)\<rparr>, w3) of Inl e \<Rightarrow> Inl e | Inr (t6, w6) \<Rightarrow>
      (case get_metrics_dict E ''val/'' epoch (t6, w6) of Inl e \<Rightarrow> Inl e
         | Inr (val_result, t7, w7) \<Rightarrow>
      (case reset_metrics E t7 of Inl e \<Rightarrow> Inl e | Inr t8 \<Rightarrow>
      (case optimizer t8 of None \<Rightarrow> Inl AttributeError | Some opt \<Rightarrow>
      (case param_groups opt of [] \<Rightarrow> Inl IndexError | g # gs \<Rightarrow>
        (let result = dict_merge (dict_merge [(''Epoch'', IntCell epoch),
                                              (''lr'', FloatCell (Float (lr g)))]
                                   train_result) val_result
         in case history t8 of None \<Rightarrow> Inl AttributeError
            | Some h \<Rightarrow> Inr (result, t8\<lparr>history := Some (h @ [result])\<rparr>, w7)))))))))))))"

subsection \<open>Checkpoints and the history file\<close>

definition history_to_csv ::
  "('tm, 'sc) env \<Rightarrow> string \<Rightarrow> 'tm trainer \<times> world \<Rightarrow> error option \<times> world" where
  "history_to_csv E filename s =
     (case s of (t, w) \<Rightarrow>
      (case history t of None \<Rightarrow> (Some AttributeError, w)
       | Some h \<Rightarrow>
         (case write_file (disk E filename) filename (Csv h) (files w) of
            (err, fs) \<Rightarrow> (err, w\<lparr>files := fs\<rparr>))))"

text \<open>
  \<^verbatim>\<open>save_checkpoint\<close> returns the world it leaves behind together with the exception, if
  one was raised: a failed write has changed the file all the same.
\<close>

definition save_checkpoint ::
  "('tm, 'sc) env \<Rightarrow> string \<Rightarrow> 'tm trainer \<times> world \<Rightarrow> error option \<times> world" where
  "save_checkpoint E filename s =
     (case s of (t, w) \<Rightarrow>
      (let w1 = print (SavingCheckpoint filename) w
       in case model t of None \<Rightarrow> (Some AttributeError, w1) | Some m \<Rightarrow>
          (case optimizer t of None \<Rightarrow> (Some AttributeError, w1) | Some opt \<Rightarrow>
            (let checkpoints = \<lparr>ckpt_model = m, ckpt_optimizer = opt, ckpt_history = history t\<rparr>
             in case write_file (disk E filename) filename (Pickle checkpoints) (files w1) of
                  (err, fs) \<Rightarrow> (err, w1\<lparr>files := fs\<rparr>)))))"

text \<open>
  \<^verbatim>\<open>torch.load\<close> raises on a missing file and on a file that is not a complete pickle.
\<close>

definition torch_load :: "string \<Rightarrow> filesystem \<Rightarrow> error + checkpoint" where
  "torch_load filename fs =
     (case fs filename of None \<Rightarrow> Inl FileNotFoundError
      | Some (Pickle c) \<Rightarrow> Inr c
      | Some (Csv h) \<Rightarrow> Inl UnpicklingError
      | Some (Truncated f n) \<Rightarrow> Inl UnpicklingError)"

definition load_checkpoint ::
  "string \<Rightarrow> 'tm trainer \<times> world \<Rightarrow> error + checkpoint \<times> 'tm trainer" where
  "load_checkpoint filename s =
     (case s of (t, w) \<Rightarrow>
      (case torch_load filename (files w) of Inl e \<Rightarrow> Inl e | Inr checkpoints \<Rightarrow>
      (case (case model t of None \<Rightarrow> Inr None
             | Some m \<Rightarrow> (case load_state_dict m (ckpt_model checkpoints) of
                            Inl e \<Rightarrow> Inl e | Inr m' \<Rightarrow> Inr (Some m'))) of
         Inl e \<Rightarrow> Inl e | Inr mdl \<Rightarrow>
      (case (case optimizer t of None \<Rightarrow> Inr None
             | Some opt \<Rightarrow> (case Optimizer_load_state_dict opt (ckpt_optimizer checkpoints) of
                              Inl e \<Rightarrow> Inl e | Inr opt' \<Rightarrow> Inr (Some opt'))) of
         Inl e \<Rightarrow> Inl e | Inr optm \<Rightarrow>
        Inr (checkpoints,
             t\<lparr>model := mdl, optimizer := optm,
               history := (case history t of None \<Rightarrow> None
                           | Some h \<Rightarrow> ckpt_history checkpoints)\<rparr>)))))"

subsection \<open>The training run\<close>

text \<open>
  The body of the \<^verbatim>\<open>for epoch in range(1, num_epochs + 1)\<close> loop of \<^verbatim>\<open>train\<close>, over the
  list of the epochs still to run. A data loader is iterated anew every epoch and may
  yield other batches each time (the training loader shuffles): it is a function from the
  epoch to the batches of that pass. The scheduler steps the optimizer it was built on,
  the trainer's; \<^verbatim>\<open>train_one_epoch\<close> has raised before if the trainer has none.
\<close>

definition epoch_scheduler_step ::
  "('tm, 'sc) env \<Rightarrow> 'sc option \<Rightarrow> 'tm trainer \<Rightarrow> 'sc option \<times> 'tm trainer" where
  "epoch_scheduler_step E epoch_scheduler t =
     (case epoch_scheduler of None \<Rightarrow> (None, t)
      | Some sc \<Rightarrow>
        (case optimizer t of None \<Rightarrow> (Some sc, t)
         | Some opt \<Rightarrow> (case scheduler_step E sc opt of
                          (sc', opt') \<Rightarrow> (Some sc', t\<lparr>optimizer := Some opt'\<rparr>))))"

fun train_epochs ::
  "('tm, 'sc) env \<Rightarrow> int \<Rightarrow> (int \<Rightarrow> batch list) \<Rightarrow> (int \<Rightarrow> batch list) \<Rightarrow> int \<Rightarrow> int \<Rightarrow> string
     \<Rightarrow> int list \<Rightarrow> 'tm \<times> 'sc option \<times> 'tm trainer \<times> world
     \<Rightarrow> error + 'tm \<times> 'sc option \<times> 'tm trainer \<times> world" where
  "train_epochs E num_epochs train_loader val_loader verbose save_checkpoint_per_num_epochs
       checkpoints_dir [] s = Inr s"
| "train_epochs E num_epochs train_loader val_loader verbose save_checkpoint_per_num_epochs
       checkpoints_dir (epoch # rest) (train_timer, epoch_scheduler, t, w) =
     (case timer_call E train_timer epoch num_epochs of (txt, train_timer') \<Rightarrow>
      (case train_one_epoch E epoch (train_loader epoch) (val_loader epoch) verbose
              (t, print (EpochHeader epoch num_epochs txt) w) of
         Inl e \<Rightarrow> Inl e | Inr (result, t1, w1) \<Rightarrow>
      (case history_to_csv E (path_join checkpoints_dir ''history.csv'')
              (t1, print (ResultLine result) w1) of
         (Some e, w2) \<Rightarrow> Inl e | (None, w2) \<Rightarrow>
      (case epoch_scheduler_step E epoch_scheduler t1 of (epoch_scheduler', t2) \<Rightarrow>
        if save_checkpoint_per_num_epochs > 0 \<and> epoch mod save_checkpoint_per_num_epochs = 0
        then
          (case save_checkpoint E
                  (path_join checkpoints_dir (str epoch @ ''_epoch.pkl'')) (t2, w2) of
             (Some e, w3) \<Rightarrow> Inl e
           | (None, w3) \<Rightarrow>
               train_epochs E num_epochs train_loader val_loader verbose
                 save_checkpoint_per_num_epochs checkpoints_dir rest
                 (train_timer', epoch_scheduler', t2, w3))
        else train_epochs E num_epochs train_loader val_loader verbose
               save_checkpoint_per_num_epochs checkpoints_dir rest
               (train_timer', epoch_scheduler', t2, w2)))))"

definition train ::
  "('tm, 'sc) env \<Rightarrow> int \<Rightarrow> (int \<Rightarrow> batch list) \<Rightarrow> (int \<Rightarrow> batch list) \<Rightarrow> 'sc option \<Rightarrow> int \<Rightarrow> int
     \<Rightarrow> string \<Rightarrow> 'tm trainer \<times> world \<Rightarrow> error + 'sc option \<times> 'tm trainer \<times> world" where
  "train E num_epochs train_loader val_loader epoch_scheduler verbose
       save_checkpoint_per_num_epochs checkpoints_dir s =
     (case s of (t, w) \<Rightarrow>
      (case train_epochs E num_epochs train_loader val_loader verbose
              save_checkpoint_per_num_epochs checkpoints_dir [1..num_epochs]
              (Timer E, epoch_scheduler, t, w) of
         Inl e \<Rightarrow> Inl e
       | Inr (train_timer, epoch_scheduler', t', w') \<Rightarrow> Inr (epoch_scheduler', t', w')))"

text \<open>
  The last lines of train.py: the run, then the final checkpoint and the history file.
  The trainer there is an \<^verbatim>\<open>EMATrainer\<close>, a class that is not among the sources; the three
  calls are taken to be the methods of \<^verbatim>\<open>BaseTrainer\<close> above.
\<close>

definition train_py ::
  "('tm, 'sc) env \<Rightarrow> int \<Rightarrow> (int \<Rightarrow> batch list) \<Rightarrow> (int \<Rightarrow> batch list) \<Rightarrow> 'sc option \<Rightarrow> int \<Rightarrow> int
     \<Rightarrow> string \<Rightarrow> 'tm trainer \<times> world \<Rightarrow> error + 'tm trainer \<times> world" where
  "train_py E num_epochs train_dataloader val_dataloader scheduler verbose
       save_checkpoint_per_num_epochs checkpoints_dir s =
     (case train E num_epochs train_dataloader val_dataloader scheduler verbose
              save_checkpoint_per_num_epochs checkpoints_dir s of
        Inl e \<Rightarrow> Inl e
      | Inr (scheduler', t, w) \<Rightarrow>
        (case save_checkpoint E (path_join checkpoints_dir ''checkpoint.pkl'') (t, w) of
           (Some e, w1) \<Rightarrow> Inl e
         | (None, w1) \<Rightarrow>
           (case history_to_csv E (path_join checkpoints_dir ''history.csv'') (t, w1) of
              (Some e, w2) \<Rightarrow> Inl e
            | (None, w2) \<Rightarrow> Inr (t, w2))))"

section \<open>The spec's size-weighted average\<close>

text \<open>
  The average that the spec states for the loss accumulator, in the spec's words: over
  batches of size \<open>n\<close> and per-batch value \<open>v\<close>, the sum of \<open>n * v\<close> divided by the sum
  of \<open>n\<close>. It is here to be compared with what the code's accumulator computes.
\<close>

definition size_weighted_average :: "(nat \<times> real) list \<Rightarrow> real" where
  "size_weighted_average batches =
     (\<Sum>(n, v)\<leftarrow>batches. real n * v) / (\<Sum>(n, v)\<leftarrow>batches. real n)"

section \<open>A small instance\<close>

text \<open>
  A model with the single weight \<open>w\<close> that predicts \<open>w * x\<close>, trained by one step of
  gradient descent on the squared error per batch; the mean absolute error as criterion;
  a timer that reads zero; a disk on which every write completes; the real logarithm.
\<close>

definition l1_loss :: "tensor \<Rightarrow> tensor \<Rightarrow> real" where
  "l1_loss y_pred y_true = sum_list (map2 (\<lambda>p t. \<bar>p - t\<bar>) y_pred y_true) / real (length y_true)"

definition example_env :: "(unit, unit) env" where
  "example_env =
     \<lparr>forward = (\<lambda>mode m img. case map_of m ''w'' of Some [a] \<Rightarrow> map (\<lambda>x. a * x) img | _ \<Rightarrow> img),
      backward_step = (\<lambda>mode crit m opt img y_true.
         (map (\<lambda>(k, v). (k, map (\<lambda>a. a - (1 / 2) * sum_list (map2 (\<lambda>x y. 2 * (a * x - y) * x) img y_true)) v)) m,
          opt)),
      scheduler_step = (\<lambda>sc opt. (sc, opt)),
      Timer = (),
      timer_start = (\<lambda>tm. tm),
      timer_stop = (\<lambda>tm. (0, tm)),
      timer_reset = (\<lambda>tm. tm),
      timer_call = (\<lambda>tm i n. ([], tm)),
      disk = (\<lambda>path. Completes),
      torch_log10 = log 10,
      equal_metric_states = all_states_close\<rparr>"

definition example_optimizer :: Optimizer where
  "example_optimizer =
     \<lparr>param_groups = [\<lparr>lr = 1 / 2, hyperparameters = [], params = [0]\<rparr>], state = []\<rparr>"

definition example_metrics :: MetricCollection where
  "example_metrics =
     MetricCollection_init
       [(''Log10AE'', Log10AverageError \<lparr>sum_abs_error = 0, total = 0\<rparr>),
        (''TA1'', ThresholdAccuracy (ThresholdAccuracy_init (5 / 4)))]"

definition example_trainer :: "unit trainer" where
  "example_trainer =
     BaseTrainer_init example_env (Some [(''w'', [0])]) (Some example_optimizer)
       (Some l1_loss) (Some example_metrics)"

definition empty_world :: world where
  "empty_world = \<lparr>stdout = [], tensorboard = [], files = (\<lambda>path. None)\<rparr>"

text \<open>
  A second instance, for the compute groups: a model that training leaves as it is (the
  step of the optimizer changes nothing), with the weight 1, and the two threshold
  accuracies of thresholds \<open>1.25\<close> and \<open>1.25 ^ 3\<close> as metrics.
\<close>

definition frozen_env :: "(unit, unit) env" where
  "frozen_env = example_env\<lparr>backward_step := (\<lambda>mode crit m opt img y_true. (m, opt))\<rparr>"

definition grouped_trainer :: "unit trainer" where
  "grouped_trainer =
     BaseTrainer_init frozen_env (Some [(''w'', [1])]) (Some example_optimizer) (Some l1_loss)
       (Some (MetricCollection_init
          [(''TA1'', ThresholdAccuracy (ThresholdAccuracy_init (5 / 4))),
           (''TA3'', ThresholdAccuracy (ThresholdAccuracy_init (125 / 64)))]))"

section \<open>The log-scale error and the threshold accuracy\<close>

lemma broadcast_op_same: "length xs = length ys \<Longrightarrow> broadcast_op f xs ys = Inr (map2 f xs ys)"
  by (simp add: broadcast_op_def)



lemma log10_error_ten_above_floor:
  assumes "1 / 10 ^ 6 \<le> t"
  shows "log10_error lg (10 * t) t = \<bar>lg (10 * t) - lg t\<bar>"
proof -
  have pos: "0 < t" using assms by (smt (verit) divide_pos_pos zero_less_power)
  have a: "max (10 * t) (1 / 10 ^ 6) = 10 * t" using assms pos by (simp add: max_def)
  have b: "max t (1 / 10 ^ 6) = t" using assms by (simp add: max_def)
  show ?thesis unfolding log10_error_def a b ..
qed




text \<open>
  With the real logarithm in the place of torch's, a prediction of ten times a target at
  or above the floor has the log-error 1. This is a fact of the real numbers only: torch's
  float logarithm is rounded, and no such equation is stated for it.
\<close>

lemma log10_error_ten_real_logarithm:
  assumes "1 / 10 ^ 6 \<le> t"
  shows "log10_error (log 10) (10 * t) t = 1"
proof -
  have pos: "0 < t" using assms by (smt (verit) divide_pos_pos zero_less_power)
  have "log 10 (10 * t) = 1 + log 10 t"
    using pos by (simp add: log_mult)
  then show ?thesis unfolding log10_error_ten_above_floor [OF assms] by simp
qed




lemma ratio_tensor:
  assumes "length preds = length target"
  shows "map2 max (map2 (/) (clamp_min preds c) (clamp_min target c))
                  (map2 (/) (clamp_min target c) (clamp_min preds c))
         = map2 (\<lambda>p t. max (max p c / max t c) (max t c / max p c)) preds target"
  using assms by (induction preds target rule: list_induct2) (simp_all add: clamp_min_def)

lemma ThresholdAccuracy_update_same_shape:
  assumes "length preds = length target"
  shows "ThresholdAccuracy_update preds target m
    = Inr (MeanMetric_update (map (\<lambda>r. if r < threshold m then 1 else 0) (map2 ratio preds target)) 1 m)"
proof -
  let ?p = "clamp_min preds (1 / 10 ^ 6)" and ?t = "clamp_min target (1 / 10 ^ 6)"
  have l: "length ?p = length ?t" using assms by (simp add: clamp_min_def)
  have a: "tensor_div ?p ?t = Inr (map2 (/) ?p ?t)"
    unfolding tensor_div_def using l by (rule broadcast_op_same)
  have b: "tensor_div ?t ?p = Inr (map2 (/) ?t ?p)"
    unfolding tensor_div_def using l [symmetric] by (rule broadcast_op_same)
  have "length (map2 (/) ?p ?t) = length (map2 (/) ?t ?p)" using l by simp
  then have c: "maximum (map2 (/) ?p ?t) (map2 (/) ?t ?p)
      = Inr (map2 max (map2 (/) ?p ?t) (map2 (/) ?t ?p))"
    unfolding maximum_def by (rule broadcast_op_same)
  have d: "map2 max (map2 (/) ?p ?t) (map2 (/) ?t ?p) = map2 ratio preds target"
    unfolding ratio_tensor [OF assms] ratio_def ..
  show ?thesis
    by (simp only: ThresholdAccuracy_update_def Let_def a b c d sum.case)
qed

lemma sum_mask:
  "sum_list (map (\<lambda>v. v * 1) (map (\<lambda>r. if r < thr then 1 else 0) (map2 ratio preds target)))
     = real (below thr preds target)"
  unfolding below_def
  by (induction preds target rule: list_induct2') simp_all

lemma sum_weight:
  "length preds = length target \<Longrightarrow>
   sum_list (map (\<lambda>v. 1) (map (\<lambda>r. if r < thr then 1 else (0::real)) (map2 ratio preds target)))
     = real (length target)"
  by (induction preds target rule: list_induct2) simp_all

lemma ratio_same: "ratio t t = 1"
  by (simp add: ratio_def max_def)

lemma ratio_double:
  assumes "1 / 10 ^ 6 \<le> t"
  shows "ratio (2 * t) t = 2"
proof -
  have pos: "0 < t" using assms by (smt (verit) divide_pos_pos zero_less_power)
  have a: "max (2 * t) (1 / 10 ^ 6) = 2 * t" using assms pos by (simp add: max_def)
  have b: "max t (1 / 10 ^ 6) = t" using assms by (simp add: max_def)
  show ?thesis unfolding ratio_def a b using pos by (simp add: max_def)
qed

lemma below_same: "1 < thr \<Longrightarrow> below thr xs xs = length xs"
  unfolding below_def by (induction xs) (simp_all add: ratio_same)

lemma below_double:
  "thr \<le> 2 \<Longrightarrow> \<forall>t\<in>set xs. 1 / 10 ^ 6 \<le> t \<Longrightarrow> below thr (map (\<lambda>t. 2 * t) xs) xs = 0"
  unfolding below_def by (induction xs) (simp_all add: ratio_double)

text \<open>
  Claim C9, as amended. For a prediction and a target tensor of the same shape,
  \<open>ThresholdAccuracy.update\<close> clamps both to the floor \<open>1e-6\<close>, and adds to the running sum
  the number of elements whose ratio \<open>max(pred/target, target/pred)\<close> is strictly below the
  threshold, and to the weight the number of elements. On a fresh accumulator and
  non-empty tensors \<open>compute()\<close> is then that fraction: with threshold 1.25 it is 1 when
  the prediction equals the target, and 0 when every target element is at least the floor
  and the prediction is twice the target.
\<close>

theorem ThresholdAccuracy_fraction_below_threshold:
  assumes len: "length preds = length target"
  shows "\<exists>m'. ThresholdAccuracy_update preds target m = Inr m'
     \<and> threshold m' = threshold m
     \<and> mean_value m' = mean_value m + real (below (threshold m) preds target)
     \<and> weight m' = weight m + real (length target)
     \<and> (mean_value m = 0 \<and> weight m = 0 \<and> target \<noteq> [] \<longrightarrow>
          MeanMetric_compute m'
            = Float (real (below (threshold m) preds target) / real (length target))
          \<and> (threshold m = 5 / 4 \<and> preds = target \<longrightarrow> MeanMetric_compute m' = Float 1)
          \<and> (threshold m = 5 / 4 \<and> (\<forall>t\<in>set target. 1 / 10 ^ 6 \<le> t)
               \<and> preds = map (\<lambda>t. 2 * t) target \<longrightarrow> MeanMetric_compute m' = Float 0))"
proof -
  define m' where "m' = m\<lparr>mean_value := mean_value m + real (below (threshold m) preds target),
                          weight := weight m + real (length target)\<rparr>"
  have upd: "ThresholdAccuracy_update preds target m = Inr m'"
  proof (cases "target = []")
    case True
    with len show ?thesis
      by (simp add: ThresholdAccuracy_update_same_shape MeanMetric_update_def m'_def below_def)
  next
    case False
    with len have "map (\<lambda>r. if r < threshold m then 1 else (0::real)) (map2 ratio preds target) \<noteq> []"
      by (cases preds; cases target) simp_all
    then show ?thesis
      by (simp only: ThresholdAccuracy_update_same_shape [OF len] MeanMetric_update_def m'_def
          sum_mask sum_weight [OF len] if_False)
  qed
  have comp: "MeanMetric_compute m'
      = Float (real (below (threshold m) preds target) / real (length target))"
    if "mean_value m = 0" "weight m = 0" "target \<noteq> []"
    using that by (simp add: MeanMetric_compute_def m'_def)
  have same: "MeanMetric_compute m' = Float 1"
    if "mean_value m = 0" "weight m = 0" "target \<noteq> []" "threshold m = 5 / 4" "preds = target"
    using comp [OF that(1-3)] that(3-5) by (simp add: below_same)
  have double: "MeanMetric_compute m' = Float 0"
    if "mean_value m = 0" "weight m = 0" "target \<noteq> []" "threshold m = 5 / 4"
       "\<forall>t\<in>set target. 1 / 10 ^ 6 \<le> t" "preds = map (\<lambda>t. 2 * t) target"
    using comp [OF that(1-3)] that(4-6) by (simp add: below_double)
  show ?thesis
    using upd comp same double by (intro exI [of _ m']) (simp add: m'_def)
qed

theorem ThresholdAccuracy_fraction_below_threshold_witness:
  "\<exists>m'. ThresholdAccuracy_update [2, 4] [1, 2] (ThresholdAccuracy_init (5 / 4)) = Inr m'
     \<and> weight m' = 2 \<and> MeanMetric_compute m' = Float 0"
  using ThresholdAccuracy_fraction_below_threshold
    [of "[2, 4]" "[1, 2]" "ThresholdAccuracy_init (5 / 4)"]
  by (auto simp: ThresholdAccuracy_init_def)

text \<open>
  The claim as stated fails below the floor: the target \<open>1e-7\<close> is strictly positive and
  the prediction is twice the target, yet both are clamped to \<open>1e-6\<close>, the ratio is 1, and
  \<open>compute()\<close> is 1 and not 0.
\<close>

theorem ThresholdAccuracy_double_below_floor_counterexample:
  "(0::real) < 1 / 10 ^ 7
   \<and> ThresholdAccuracy_update [2 * (1 / 10 ^ 7)] [1 / 10 ^ 7] (ThresholdAccuracy_init (5 / 4))
       = Inr \<lparr>mean_value = 1, weight = 1, threshold = 5 / 4\<rparr>
   \<and> MeanMetric_compute \<lparr>mean_value = 1, weight = 1, threshold = 5 / 4\<rparr> = Float 1"
  by (simp add: ThresholdAccuracy_update_def ThresholdAccuracy_init_def MeanMetric_update_def
      MeanMetric_compute_def tensor_div_def maximum_def broadcast_op_def clamp_min_def)

section \<open>The EMA update and the loss accumulator\<close>

lemma map2_snd: "length xs = length ys \<Longrightarrow> map2 (\<lambda>a b. b) xs ys = ys"
  by (induction xs ys rule: list_induct2) simp_all

text \<open>
  Claim C2. An update of the EMA tracker with weight \<open>w\<close> walks the shadow and the live
  parameter tensors together. On the first update (the counter is zero, as after
  construction) the shadow becomes the live parameters themselves. On every later update
  each shadow tensor of the same shape as its live tensor becomes, element by element,
  \<open>w * shadow + (1 - w) * live\<close>. The counter goes up by one each time.
\<close>

theorem ema_first_copy_then_average:
  assumes same_len: "length (module am) = length model_parameters"
  shows "n_averaged (update_parameters (ema_avg w) model_parameters am) = n_averaged am + 1
     \<and> length (module (update_parameters (ema_avg w) model_parameters am)) = length model_parameters
     \<and> (n_averaged am = 0 \<longrightarrow>
          module (update_parameters (ema_avg w) model_parameters am) = model_parameters)
     \<and> (n_averaged am \<noteq> 0 \<longrightarrow>
          (\<forall>i<length model_parameters.
             length (module am ! i) = length (model_parameters ! i) \<longrightarrow>
               length (module (update_parameters (ema_avg w) model_parameters am) ! i)
                 = length (model_parameters ! i)
               \<and> (\<forall>j<length (model_parameters ! i).
                    module (update_parameters (ema_avg w) model_parameters am) ! i ! j
                      = w * (module am ! i ! j) + (1 - w) * (model_parameters ! i ! j))))"
proof (intro conjI impI allI)
  show "n_averaged (update_parameters (ema_avg w) model_parameters am) = n_averaged am + 1"
    by (simp add: update_parameters_def)
  show "length (module (update_parameters (ema_avg w) model_parameters am)) = length model_parameters"
    using same_len by (simp add: update_parameters_def)
  show "module (update_parameters (ema_avg w) model_parameters am) = model_parameters"
    if "n_averaged am = 0"
    using that same_len by (simp add: update_parameters_def map2_snd)
next
  fix i
  assume later: "n_averaged am \<noteq> 0" and i: "i < length model_parameters"
    and shape: "length (module am ! i) = length (model_parameters ! i)"
  have eq: "module (update_parameters (ema_avg w) model_parameters am) ! i
      = ema_avg w (module am ! i) (model_parameters ! i) (n_averaged am)"
    using later i same_len by (simp add: update_parameters_def)
  show "length (module (update_parameters (ema_avg w) model_parameters am) ! i)
      = length (model_parameters ! i)"
    unfolding eq using shape by (simp add: ema_avg_def)
  fix j
  assume j: "j < length (model_parameters ! i)"
  show "module (update_parameters (ema_avg w) model_parameters am) ! i ! j
      = w * (module am ! i ! j) + (1 - w) * (model_parameters ! i ! j)"
    unfolding eq using shape j by (simp add: ema_avg_def algebra_simps)
qed

theorem ema_first_copy_then_average_witness:
  "module (update_parameters (ema_avg (9 / 10)) [[3, 4]] (AveragedModel_init [[1, 2]])) = [[3, 4]]
   \<and> module (update_parameters (ema_avg (9 / 10)) [[5, 6]]
        \<lparr>module = [[3, 4]], n_averaged = 1\<rparr>) ! 0 ! 1 = 9 / 10 * 4 + (1 - 9 / 10) * 6"
  using ema_first_copy_then_average [of "AveragedModel_init [[1, 2]]" "[[3, 4]]" "9 / 10"]
    ema_first_copy_then_average [of "\<lparr>module = [[3, 4]], n_averaged = 1\<rparr>" "[[5, 6]]" "9 / 10"]
  by (simp add: AveragedModel_init_def)

lemma one_batch_loss_logger:
  assumes "one_batch E ph img y t = Inr (loss, t')"
  shows "loss_logger t' = loss_logger_forward loss (loss_logger t)"
  using assms
  by (cases ph)
    (auto simp: one_batch_def train_one_batch_def val_one_batch_def Let_def
      split: option.splits sum.splits prod.splits)

lemma fold_loss_logger:
  "mean_value (fold (\<lambda>(n, v). loss_logger_forward v) batches m)
     = mean_value m + sum_list (map snd batches)
   \<and> weight (fold (\<lambda>(n, v). loss_logger_forward v) batches m)
     = weight m + real (length batches)"
  by (induction batches arbitrary: m)
    (auto simp: loss_logger_forward_def MeanMetric_update_def)

lemma size_weighted_equal_sizes:
  assumes "\<forall>b\<in>set batches. fst b = n" "0 < n" "batches \<noteq> []"
  shows "size_weighted_average batches = sum_list (map snd batches) / real (length batches)"
proof -
  have a: "(\<Sum>(n, v)\<leftarrow>batches. real n * v) = real n * sum_list (map snd batches)"
    using assms(1) by (induction batches) (auto simp: algebra_simps)
  have b: "(\<Sum>(n, v)\<leftarrow>batches. real n) = real n * real (length batches)"
    using assms(1) by (induction batches) (auto simp: algebra_simps)
  show ?thesis unfolding size_weighted_average_def a b using assms(2) by simp
qed

text \<open>
  Claim C3, as amended. After a reset, the loss accumulator folded over the per-batch
  losses returns their plain arithmetic mean, the sum of the losses over the number of
  batches (and NaN when there was no batch): the batch size never reaches it. That is the
  spec's size-weighted average when all batches have the same positive size.
\<close>

theorem loss_logger_mean_of_batch_losses:
  "MeanMetric_compute (fold (\<lambda>(n, v). loss_logger_forward v) batches (MeanMetric_reset m))
     = (if batches = [] then NaN else Float (sum_list (map snd batches) / real (length batches)))
   \<and> (batches \<noteq> [] \<and> 0 < k \<and> (\<forall>b\<in>set batches. fst b = k) \<longrightarrow>
        MeanMetric_compute (fold (\<lambda>(n, v). loss_logger_forward v) batches (MeanMetric_reset m))
          = Float (size_weighted_average batches))"
proof -
  have c: "MeanMetric_compute (fold (\<lambda>(n, v). loss_logger_forward v) batches (MeanMetric_reset m))
     = (if batches = [] then NaN else Float (sum_list (map snd batches) / real (length batches)))"
    by (simp add: MeanMetric_compute_def fold_loss_logger MeanMetric_reset_def)
  show ?thesis
    using c size_weighted_equal_sizes [of batches k] by auto
qed

theorem loss_logger_mean_of_batch_losses_witness:
  "MeanMetric_compute (fold (\<lambda>(n, v). loss_logger_forward v) [(2, 1), (2, 4)] (MeanMetric_reset \<lparr>mean_value = 7, weight = 3\<rparr>))
     = Float (5 / 2) \<and> size_weighted_average [(2, 1), (2, 4)] = 5 / 2"
  using loss_logger_mean_of_batch_losses [of "[(2, 1), (2, 4)]" "\<lparr>mean_value = 7, weight = 3\<rparr>" 2]
  by (simp add: size_weighted_average_def)

text \<open>
  The claim as stated fails on a partial last batch: a batch of two with loss 1 and a
  batch of one with loss 4 give 5/2, where the size-weighted average is 2.
\<close>

theorem loss_logger_ignores_batch_size_counterexample:
  "MeanMetric_compute (fold (\<lambda>(n, v). loss_logger_forward v) [(2, 1), (1, 4)]
      (MeanMetric_reset \<lparr>mean_value = 0, weight = 0\<rparr>)) = Float (5 / 2)
   \<and> size_weighted_average [(2, 1), (1, 4)] = 2"
  by (simp add: size_weighted_average_def loss_logger_forward_def MeanMetric_update_def
      MeanMetric_compute_def MeanMetric_reset_def)

section \<open>Saving and loading a checkpoint\<close>

lemma load_values:
  assumes "length own = length loaded" "map fst own = map fst loaded" "distinct (map fst loaded)"
  shows "map (\<lambda>(k, v). (k, case map_of loaded k of None \<Rightarrow> v | Some v' \<Rightarrow> v')) own = loaded"
  using assms
proof (induction own loaded rule: list_induct2)
  case Nil
  then show ?case by simp
next
  case (Cons x xs y ys)
  obtain k v where x: "x = (k, v)" by (cases x)
  obtain k' v' where y: "y = (k', v')" by (cases y)
  from Cons.prems x y have kk: "k' = k" and keys: "map fst xs = map fst ys"
    and notin: "k \<notin> set (map fst ys)" and dist: "distinct (map fst ys)" by auto
  have "map (\<lambda>(k2, v2). (k2, case map_of ((k, v') # ys) k2 of None \<Rightarrow> v2 | Some v3 \<Rightarrow> v3)) xs
      = map (\<lambda>(k2, v2). (k2, case map_of ys k2 of None \<Rightarrow> v2 | Some v3 \<Rightarrow> v3)) xs"
  proof (rule map_cong [OF refl])
    fix z assume "z \<in> set xs"
    then have "fst z \<in> set (map fst ys)" using keys by (metis image_eqI set_map)
    with notin have "fst z \<noteq> k" by auto
    then show "(case z of (k2, v2) \<Rightarrow> (k2, case map_of ((k, v') # ys) k2 of None \<Rightarrow> v2 | Some v3 \<Rightarrow> v3))
        = (case z of (k2, v2) \<Rightarrow> (k2, case map_of ys k2 of None \<Rightarrow> v2 | Some v3 \<Rightarrow> v3))"
      by (cases z) simp
  qed
  with Cons.IH [OF keys dist] show ?case by (simp add: x y kk)
qed

lemma no_size_mismatch:
  assumes "length own = length loaded" "map fst own = map fst loaded" "distinct (map fst loaded)"
    "map (\<lambda>kv. length (snd kv)) own = map (\<lambda>kv. length (snd kv)) loaded"
  shows "\<not> list_ex (\<lambda>(k, v). case map_of loaded k of None \<Rightarrow> True
                                | Some v' \<Rightarrow> length v' \<noteq> length v) own"
  using assms
proof (induction own loaded rule: list_induct2)
  case Nil
  then show ?case by simp
next
  case (Cons x xs y ys)
  obtain k v where x: "x = (k, v)" by (cases x)
  obtain k' v' where y: "y = (k', v')" by (cases y)
  from Cons.prems x y have kk: "k' = k" and keys: "map fst xs = map fst ys"
    and notin: "k \<notin> set (map fst ys)" and dist: "distinct (map fst ys)"
    and lv: "length v = length v'"
    and lens: "map (\<lambda>kv. length (snd kv)) xs = map (\<lambda>kv. length (snd kv)) ys" by auto
  have ih: "\<not> list_ex (\<lambda>(k, v). case map_of ys k of None \<Rightarrow> True
                                | Some v' \<Rightarrow> length v' \<noteq> length v) xs"
    by (rule Cons.IH [OF keys dist lens])
  have "\<not> (case map_of ((k, v') # ys) k2 of None \<Rightarrow> True | Some v3 \<Rightarrow> length v3 \<noteq> length v2)"
    if "(k2, v2) \<in> set xs" for k2 v2
  proof -
    from that have "k2 \<in> set (map fst ys)" using keys by (metis fst_conv image_eqI set_map)
    with notin have "k2 \<noteq> k" by auto
    with ih that show ?thesis by (auto simp: list_ex_iff)
  qed
  then show ?case using lv by (auto simp: x y kk list_ex_iff)
qed

lemma load_state_dict_same_structure:
  assumes "map fst own = map fst loaded" "distinct (map fst loaded)"
    "map (\<lambda>kv. length (snd kv)) own = map (\<lambda>kv. length (snd kv)) loaded"
  shows "load_state_dict own loaded = Inr loaded"
proof -
  have len: "length own = length loaded" using assms(1) by (metis length_map)
  have "set (map fst own) = set (map fst loaded)" using assms(1) by simp
  then show ?thesis
    unfolding load_state_dict_def
    using no_size_mismatch [OF len assms] load_values [OF len assms(1,2)] by simp
qed

lemma map_of_rev_zip_same: "map_of (rev (zip xs xs)) k = (if k \<in> set xs then Some k else None)"
  by (induction xs) (auto simp: map_of_append map_add_def split: option.splits)

lemma map_of_rev_zip_same': "(case map_of (rev (zip xs xs)) k of Some p \<Rightarrow> (p, v) | None \<Rightarrow> (k, v)) = (k, v)"
  by (simp add: map_of_rev_zip_same)

lemma regroup:
  "map params own = map params loaded \<Longrightarrow>
   map2 (\<lambda>g new_group. new_group\<lparr>params := params g\<rparr>) own loaded = loaded"
proof (induction own arbitrary: loaded)
  case Nil
  then show ?case by simp
next
  case (Cons g gs)
  then show ?case by (cases loaded) auto
qed

lemma Optimizer_load_state_dict_same_structure:
  assumes "map params (param_groups own) = map params (param_groups loaded)"
  shows "Optimizer_load_state_dict own loaded = Inr loaded"
proof -
  have len: "length (param_groups own) = length (param_groups loaded)"
    using assms by (metis length_map)
  have lens: "map (\<lambda>g. length (params g)) (param_groups own)
      = map (\<lambda>g. length (params g)) (param_groups loaded)"
    using arg_cong [OF assms, of "map length"] by (simp add: comp_def)
  have st: "map (\<lambda>(k, v). case map_of (rev (zip (concat (map params (param_groups loaded)))
                  (concat (map params (param_groups loaded))))) k of
                 Some p \<Rightarrow> (p, v) | None \<Rightarrow> (k, v)) (state loaded) = state loaded"
    by (simp add: map_of_rev_zip_same' split_def)
  show ?thesis
    unfolding Optimizer_load_state_dict_def Let_def
    using len lens st regroup [OF assms] by (simp add: assms)
qed

text \<open>
  Claim C1. Let a trainer hold a model and an optimizer, and let the write to the path
  complete. Then \<open>save_checkpoint\<close> succeeds, and \<open>load_checkpoint\<close> from that path on a
  fresh trainer whose model has the same parameter names and shapes, and whose optimizer
  has the same parameter groups, succeeds and leaves the fresh trainer with the model
  parameters, the optimizer state and the history of the original at save time.
\<close>

theorem save_then_load_round_trip:
  assumes m: "model t = Some m" and opt: "optimizer t = Some opt"
    and completes: "disk E filename = Completes"
    and keys: "distinct (map fst m)"
    and model_structure: "map fst m0 = map fst m"
      "map (\<lambda>kv. length (snd kv)) m0 = map (\<lambda>kv. length (snd kv)) m"
    and optimizer_structure: "map params (param_groups opt0) = map params (param_groups opt)"
  shows "\<exists>w' checkpoints t'.
     save_checkpoint E filename (t, w) = (None, w')
     \<and> load_checkpoint filename (BaseTrainer_init E' (Some m0) (Some opt0) crit mets, w')
         = Inr (checkpoints, t')
     \<and> model t' = model t \<and> optimizer t' = optimizer t \<and> history t' = history t"
proof -
  define c where "c = \<lparr>ckpt_model = m, ckpt_optimizer = opt, ckpt_history = history t\<rparr>"
  define w' where "w' = (print (SavingCheckpoint filename) w)
      \<lparr>files := (files (print (SavingCheckpoint filename) w))(filename \<mapsto> Pickle c)\<rparr>"
  have save: "save_checkpoint E filename (t, w) = (None, w')"
    by (simp add: save_checkpoint_def m opt completes write_file_def Let_def c_def w'_def)
  have ld: "torch_load filename (files w') = Inr c"
    by (simp add: torch_load_def w'_def)
  have lm: "load_state_dict m0 m = Inr m"
    by (rule load_state_dict_same_structure [OF model_structure(1) keys model_structure(2)])
  have lo: "Optimizer_load_state_dict opt0 opt = Inr opt"
    by (rule Optimizer_load_state_dict_same_structure [OF optimizer_structure])
  have "load_checkpoint filename (BaseTrainer_init E' (Some m0) (Some opt0) crit mets, w')
      = Inr (c, (BaseTrainer_init E' (Some m0) (Some opt0) crit mets)
                  \<lparr>model := Some m, optimizer := Some opt, history := history t\<rparr>)"
    by (simp add: load_checkpoint_def ld lm lo BaseTrainer_init_def c_def)
  with save show ?thesis by (simp add: m opt)
qed


theorem save_then_load_round_trip_witness:
  "\<exists>w' checkpoints t'.
     save_checkpoint example_env ''out/checkpoint.pkl''
       (example_trainer\<lparr>model := Some [(''w'', [3])],
                         history := Some [[(''Epoch'', IntCell 1)]]\<rparr>, empty_world) = (None, w')
     \<and> load_checkpoint ''out/checkpoint.pkl'' (example_trainer, w') = Inr (checkpoints, t')
     \<and> model t' = Some [(''w'', [3])] \<and> optimizer t' = Some example_optimizer
     \<and> history t' = Some [[(''Epoch'', IntCell 1)]]"
  using save_then_load_round_trip
    [of "example_trainer\<lparr>model := Some [(''w'', [3])], history := Some [[(''Epoch'', IntCell 1)]]\<rparr>"
        "[(''w'', [3])]" example_optimizer example_env "''out/checkpoint.pkl''"
        "[(''w'', [0])]" example_optimizer empty_world example_env "Some l1_loss"
        "Some example_metrics"]
  by (simp add: example_trainer_def BaseTrainer_init_def example_env_def)


text \<open>
  Claim C6, as amended. \<open>save_checkpoint\<close> writes the checkpoint to the target path
  itself: no other path changes; a write that completes leaves the complete checkpoint
  there; a write that fails after \<open>n\<close> bytes raises and leaves the first \<open>n\<close> bytes of the
  new checkpoint in place of what the path held; a path that cannot be opened raises and
  changes nothing.
\<close>

theorem save_checkpoint_writes_in_place:
  assumes m: "model t = Some m" and opt: "optimizer t = Some opt"
  shows "(\<forall>path. path \<noteq> filename \<longrightarrow>
            files (snd (save_checkpoint E filename (t, w))) path = files w path)
     \<and> (disk E filename = Completes \<longrightarrow>
          fst (save_checkpoint E filename (t, w)) = None
          \<and> files (snd (save_checkpoint E filename (t, w))) filename
              = Some (Pickle \<lparr>ckpt_model = m, ckpt_optimizer = opt, ckpt_history = history t\<rparr>))
     \<and> (\<forall>n. disk E filename = FailsAfter n \<longrightarrow>
          fst (save_checkpoint E filename (t, w)) = Some OSError
          \<and> files (snd (save_checkpoint E filename (t, w))) filename
              = Some (Truncated (Pickle \<lparr>ckpt_model = m, ckpt_optimizer = opt,
                                          ckpt_history = history t\<rparr>) n))
     \<and> (disk E filename = CannotOpen \<longrightarrow>
          fst (save_checkpoint E filename (t, w)) = Some OSError
          \<and> files (snd (save_checkpoint E filename (t, w))) = files w)"
  by (cases "disk E filename")
    (simp_all add: save_checkpoint_def m opt write_file_def Let_def print_def)

theorem save_checkpoint_writes_in_place_witness:
  "fst (save_checkpoint example_env ''out/checkpoint.pkl'' (example_trainer, empty_world)) = None
   \<and> files (snd (save_checkpoint example_env ''out/checkpoint.pkl'' (example_trainer, empty_world)))
        ''out/checkpoint.pkl''
      = Some (Pickle \<lparr>ckpt_model = [(''w'', [0])], ckpt_optimizer = example_optimizer,
                       ckpt_history = Some []\<rparr>)
   \<and> files (snd (save_checkpoint example_env ''out/checkpoint.pkl'' (example_trainer, empty_world)))
        ''out/history.csv'' = None"
  using save_checkpoint_writes_in_place
    [of example_trainer "[(''w'', [0])]" example_optimizer "''out/checkpoint.pkl''"
        example_env empty_world]
  by (simp add: example_trainer_def BaseTrainer_init_def example_env_def empty_world_def)

text \<open>
  The claim as stated fails: a path holds a valid checkpoint, the write of the next one
  fails before its first byte, and the path is left with a partial file that no longer
  loads.
\<close>

theorem save_checkpoint_failed_write_counterexample:
  "torch_load ''out/checkpoint.pkl''
     (files (empty_world\<lparr>files := [''out/checkpoint.pkl'' \<mapsto>
        Pickle \<lparr>ckpt_model = [(''w'', [5])], ckpt_optimizer = example_optimizer,
                ckpt_history = Some []\<rparr>]\<rparr>))
     = Inr \<lparr>ckpt_model = [(''w'', [5])], ckpt_optimizer = example_optimizer, ckpt_history = Some []\<rparr>
   \<and> fst (save_checkpoint (example_env\<lparr>disk := (\<lambda>path. FailsAfter 0)\<rparr>) ''out/checkpoint.pkl''
        (example_trainer, empty_world\<lparr>files := [''out/checkpoint.pkl'' \<mapsto>
           Pickle \<lparr>ckpt_model = [(''w'', [5])], ckpt_optimizer = example_optimizer,
                   ckpt_history = Some []\<rparr>]\<rparr>)) = Some OSError
   \<and> files (snd (save_checkpoint (example_env\<lparr>disk := (\<lambda>path. FailsAfter 0)\<rparr>) ''out/checkpoint.pkl''
        (example_trainer, empty_world\<lparr>files := [''out/checkpoint.pkl'' \<mapsto>
           Pickle \<lparr>ckpt_model = [(''w'', [5])], ckpt_optimizer = example_optimizer,
                   ckpt_history = Some []\<rparr>]\<rparr>))) ''out/checkpoint.pkl''
      = Some (Truncated (Pickle \<lparr>ckpt_model = [(''w'', [0])], ckpt_optimizer = example_optimizer,
                                  ckpt_history = Some []\<rparr>) 0)
   \<and> torch_load ''out/checkpoint.pkl''
        (files (snd (save_checkpoint (example_env\<lparr>disk := (\<lambda>path. FailsAfter 0)\<rparr>) ''out/checkpoint.pkl''
        (example_trainer, empty_world\<lparr>files := [''out/checkpoint.pkl'' \<mapsto>
           Pickle \<lparr>ckpt_model = [(''w'', [5])], ckpt_optimizer = example_optimizer,
                   ckpt_history = Some []\<rparr>]\<rparr>)))) = Inl UnpicklingError"
  by (simp add: save_checkpoint_def torch_load_def write_file_def example_trainer_def
      BaseTrainer_init_def example_env_def empty_world_def print_def Let_def)

section \<open>Rows, metrics and batches\<close>

subsection \<open>Dicts\<close>

lemma dict_merge_fold:
  "dict_merge d e = fold (\<lambda>kv. AList.update (fst kv) (snd kv)) e d"
  by (simp add: dict_merge_def split_def)

lemma dict_merge_keys: "fst ` set (dict_merge d e) = fst ` set d \<union> fst ` set e"
  unfolding dict_merge_fold
proof (induction e arbitrary: d)
  case Nil
  then show ?case by simp
next
  case (Cons x e)
  have "fst ` set (fold (\<lambda>kv. AList.update (fst kv) (snd kv)) (x # e) d)
      = fst ` set (AList.update (fst x) (snd x) d) \<union> fst ` set e"
    by (simp add: Cons.IH)
  also have "\<dots> = ({fst x} \<union> fst ` set d) \<union> fst ` set e"
    by (simp only: dom_update)
  finally show ?case by auto
qed

lemma dict_merge_map_of: "map_of (dict_merge d e) = map_of d ++ map_of (rev e)"
  unfolding dict_merge_fold
proof (induction e arbitrary: d)
  case Nil
  then show ?case by simp
next
  case (Cons x e)
  show ?case
    by (auto simp: Cons.IH update_conv' map_of_append map_add_def fun_eq_iff
        split: option.splits)
qed

lemma dict_merge_absent: "k \<notin> fst ` set e \<Longrightarrow> map_of (dict_merge d e) k = map_of d k"
proof -
  assume "k \<notin> fst ` set e"
  then have "map_of (rev e) k = None" by (simp add: map_of_eq_None_iff)
  then show ?thesis by (simp add: dict_merge_map_of map_add_def)
qed

subsection \<open>Metrics\<close>

lemma metric_update_reset:
  "metric_update lg p y m = Inr m' \<Longrightarrow> metric_reset m' = metric_reset m"
proof (cases m)
  case (Log10AverageError a)
  assume "metric_update lg p y m = Inr m'"
  with Log10AverageError show ?thesis
    by (auto simp: Log10AverageError_update_def MeanAbsoluteError_update_def
        MeanAbsoluteError_reset_def Let_def split: sum.splits if_splits)
next
  case (ThresholdAccuracy a)
  assume "metric_update lg p y m = Inr m'"
  with ThresholdAccuracy show ?thesis
    by (auto simp: ThresholdAccuracy_update_def MeanMetric_update_def
        MeanMetric_reset_def Let_def split: sum.splits if_splits)
next
  case (OtherMetric upd cmp dflt st)
  assume "metric_update lg p y m = Inr m'"
  with OtherMetric show ?thesis by (auto split: sum.splits)
qed

lemma update_all_reset:
  "update_all lg p y ms = Inr ms' \<Longrightarrow> reset_all ms' = reset_all ms"
proof (induction ms arbitrary: ms')
  case Nil
  then show ?case by simp
next
  case (Cons x ms)
  obtain name m where x: "x = (name, m)" by (cases x)
  from Cons.prems obtain m' rest' where
    m': "metric_update lg p y m = Inr m'" and rest': "update_all lg p y ms = Inr rest'"
    and ms': "ms' = (name, m') # rest'"
    by (auto simp: x split: sum.splits)
  show ?case
    using Cons.IH [OF rest'] metric_update_reset [OF m'] by (simp add: x ms' reset_all_def)
qed

lemma metric_setattr_reset: "metric_reset (metric_setattr k v m) = metric_reset m"
  by (cases m)
    (auto simp: MeanAbsoluteError_reset_def MeanMetric_reset_def split: list.splits)

lemma copy_state_reset: "metric_reset (copy_state m0 mi) = metric_reset mi"
proof -
  have "metric_reset (fold (\<lambda>(k, v). metric_setattr k v) st mi) = metric_reset mi" for st
    by (induction st arbitrary: mi) (simp_all add: split_def metric_setattr_reset)
  then show ?thesis by (simp add: copy_state_def)
qed

lemma link_group_reset: "reset_all (link_group cg ms) = reset_all ms"
  by (auto simp: link_group_def reset_all_def copy_state_reset
      split: list.splits option.splits)

lemma compute_groups_create_state_ref_reset:
  "reset_all (compute_groups_create_state_ref gs ms) = reset_all ms"
  unfolding compute_groups_create_state_ref_def
  by (induction gs arbitrary: ms) (simp_all add: link_group_reset)

lemma update_entry_reset:
  "map_of ms name = Some m0 \<Longrightarrow> metric_reset m0' = metric_reset m0 \<Longrightarrow>
   reset_all (AList.update name m0' ms) = reset_all ms"
  by (induction ms) (auto simp: reset_all_def split: if_splits)

lemma update_first_members_reset:
  "update_first_members lg p y gs ms = Inr ms' \<Longrightarrow> reset_all ms' = reset_all ms"
proof (induction gs arbitrary: ms)
  case Nil
  then show ?case by simp
next
  case (Cons cg gs)
  from Cons.prems obtain name members m0 m0' where
    m0: "map_of ms name = Some m0" and m0': "metric_update lg p y m0 = Inr m0'"
    and rest: "update_first_members lg p y gs (AList.update name m0' ms) = Inr ms'"
    by (auto split: list.splits option.splits sum.splits)
  from Cons.IH [OF rest] update_entry_reset [OF m0 metric_update_reset [OF m0']]
  show ?case by simp
qed

lemma MetricCollection_update_continues:
  assumes "MetricCollection_update lg eq p y mc = Inr mc'"
  shows "continues mc mc' \<and> groups_settled mc'"
proof (cases "groups_checked mc")
  case True
  with assms obtain ms where
    "update_first_members lg p y (groups mc) (collection mc) = Inr ms"
    "mc' = mc\<lparr>collection := compute_groups_create_state_ref (groups mc) ms\<rparr>"
    by (auto simp: MetricCollection_update_def split: sum.splits)
  with True show ?thesis
    by (simp add: continues_def groups_settled_def compute_groups_create_state_ref_reset
        update_first_members_reset)
next
  case False
  with assms obtain ms where ms: "update_all lg p y (collection mc) = Inr ms"
    and mc': "mc' = (if enable_compute_groups mc
        then mc\<lparr>collection := compute_groups_create_state_ref
                                (merge_compute_groups eq ms (groups mc)) ms,
                groups := merge_compute_groups eq ms (groups mc), groups_checked := True\<rparr>
        else mc\<lparr>collection := ms\<rparr>)"
    by (auto simp: MetricCollection_update_def Let_def split: sum.splits if_splits)
  from False ms show ?thesis
    by (simp add: mc' continues_def groups_settled_def compute_groups_create_state_ref_reset
        update_all_reset)
qed

lemma continues_refl: "continues mc mc"
  by (simp add: continues_def)

lemma continues_trans: "continues a b \<Longrightarrow> continues b c \<Longrightarrow> continues a c"
  by (auto simp: continues_def groups_settled_def)

lemma continues_settled: "continues a b \<Longrightarrow> groups_settled a \<Longrightarrow> groups_settled b"
  by (auto simp: continues_def groups_settled_def)

lemma continues_prefix: "continues a b \<Longrightarrow> continues (a\<lparr>prefix := p\<rparr>) (b\<lparr>prefix := p\<rparr>)"
  by (auto simp: continues_def groups_settled_def)



subsection \<open>One batch\<close>

lemma train_one_batch_frame:
  assumes "train_one_batch E img y t = Inr (l, t')"
  shows "history t' = history t \<and> criterion t' = criterion t \<and> training t' = training t
     \<and> timer t' = timer t \<and> model t' \<noteq> None \<and> optimizer t' \<noteq> None
     \<and> (\<exists>mc mc'. metrics t = Some mc \<and> metrics t' = Some mc'
           \<and> continues mc mc' \<and> groups_settled mc')"
  using assms
  by (auto simp: train_one_batch_def Let_def dest: MetricCollection_update_continues
      split: option.splits sum.splits prod.splits)

lemma val_one_batch_frame:
  assumes "val_one_batch E img y t = Inr (l, t')"
  shows "history t' = history t \<and> criterion t' = criterion t \<and> training t' = training t
     \<and> timer t' = timer t \<and> model t' = model t \<and> optimizer t' = optimizer t
     \<and> (\<exists>mc mc'. metrics t = Some mc \<and> metrics t' = Some mc'
           \<and> continues mc mc' \<and> groups_settled mc')"
  using assms
  by (auto simp: val_one_batch_def Let_def dest: MetricCollection_update_continues
      split: option.splits sum.splits prod.splits)


lemma one_batch_frame:
  assumes "one_batch E ph img y t = Inr (l, t')"
  shows "history t' = history t \<and> criterion t' = criterion t \<and> training t' = training t
     \<and> model t' \<noteq> None
     \<and> (\<exists>mc mc'. metrics t = Some mc \<and> metrics t' = Some mc'
           \<and> continues mc mc' \<and> groups_settled mc')"
proof (cases ph)
  case Training
  with assms have "train_one_batch E img y t = Inr (l, t')" by (simp add: one_batch_def)
  from train_one_batch_frame [OF this] show ?thesis by blast
next
  case Validating
  with assms have v: "val_one_batch E img y t = Inr (l, t')" by (simp add: one_batch_def)
  then have "model t \<noteq> None" by (auto simp: val_one_batch_def split: option.splits)
  with val_one_batch_frame [OF v] show ?thesis by auto
qed

lemma batch_loop_frame:
  "batch_loop E ph ep v n i bs (t, w) = Inr (t', w') \<Longrightarrow>
   history t' = history t \<and> criterion t' = criterion t \<and> training t' = training t
   \<and> files w' = files w
   \<and> (model t \<noteq> None \<longrightarrow> model t' \<noteq> None)
   \<and> (\<forall>mc. metrics t = Some mc \<longrightarrow>
         (\<exists>mc'. metrics t' = Some mc' \<and> continues mc mc'
            \<and> (bs \<noteq> [] \<longrightarrow> groups_settled mc')))"
proof (induction bs arbitrary: i t w)
  case Nil
  then show ?case by (simp add: continues_refl)
next
  case (Cons b bs)
  obtain img y ident where b: "b = (img, y, ident)" by (cases b)
  from Cons.prems obtain l t1 where ob: "one_batch E ph img y t = Inr (l, t1)"
    by (auto simp: b split: sum.splits)
  from one_batch_frame [OF ob] obtain mc mc1 where
    fr: "history t1 = history t" "criterion t1 = criterion t" "training t1 = training t"
      "model t1 \<noteq> None"
    and mc: "metrics t = Some mc" "metrics t1 = Some mc1" "continues mc mc1"
      "groups_settled mc1"
    by blast
  from Cons.prems ob have v: "v \<noteq> 0" by (auto simp: b split: if_splits)
  have step: "history t' = history t2 \<and> criterion t' = criterion t2
      \<and> training t' = training t2 \<and> files w' = files w2
      \<and> (model t2 \<noteq> None \<longrightarrow> model t' \<noteq> None)
      \<and> (\<forall>mc. metrics t2 = Some mc \<longrightarrow>
            (\<exists>mc'. metrics t' = Some mc' \<and> continues mc mc'
               \<and> (bs \<noteq> [] \<longrightarrow> groups_settled mc')))
      \<Longrightarrow> history t2 = history t1 \<Longrightarrow> criterion t2 = criterion t1
      \<Longrightarrow> training t2 = training t1 \<Longrightarrow> files w2 = files w \<Longrightarrow> model t2 = model t1
      \<Longrightarrow> metrics t2 = metrics t1 \<Longrightarrow> ?case" for t2 :: "'a trainer" and w2
  proof -
    assume ih: "history t' = history t2 \<and> criterion t' = criterion t2
      \<and> training t' = training t2 \<and> files w' = files w2
      \<and> (model t2 \<noteq> None \<longrightarrow> model t' \<noteq> None)
      \<and> (\<forall>mc. metrics t2 = Some mc \<longrightarrow>
            (\<exists>mc'. metrics t' = Some mc' \<and> continues mc mc'
               \<and> (bs \<noteq> [] \<longrightarrow> groups_settled mc')))"
      and eqs: "history t2 = history t1" "criterion t2 = criterion t1"
        "training t2 = training t1" "files w2 = files w" "model t2 = model t1"
        "metrics t2 = metrics t1"
    from ih eqs(6) mc(2) obtain mc' where
      mc': "metrics t' = Some mc'" "continues mc1 mc'" by auto
    have "continues mc mc'" by (rule continues_trans [OF mc(3) mc'(2)])
    moreover have "groups_settled mc'" by (rule continues_settled [OF mc'(2) mc(4)])
    ultimately show ?case using ih eqs fr mc(1) mc'(1) by simp
  qed
  show ?case
  proof (cases "i mod v = 0")
    case True
    obtain s tm where tc: "timer_call E (timer t1) i n = (s, tm)" by force
    from Cons.prems ob v True tc
    have "batch_loop E ph ep v n (i + 1) bs (t1\<lparr>timer := tm\<rparr>, print (Progress ph ep i n s) w)
        = Inr (t', w')" by (simp add: b)
    from Cons.IH [OF this] show ?thesis by (rule step) (simp_all add: print_def)
  next
    case False
    from Cons.prems ob v False
    have "batch_loop E ph ep v n (i + 1) bs (t1, w) = Inr (t', w')" by (simp add: b)
    from Cons.IH [OF this] show ?thesis by (rule step) simp_all
  qed
qed



subsection \<open>Reading the accumulators\<close>


lemma log_metrics_files: "files (snd (log_metrics step items (d, w))) = files w"
  by (induction items arbitrary: d w) (auto simp: Let_def add_scalar_def)

lemma log_metrics_keys:
  "fst ` set (fst (log_metrics step items (d, w))) = fst ` set d \<union> fst ` set items"
proof (induction items arbitrary: d w)
  case Nil
  then show ?case by simp
next
  case (Cons x items)
  obtain name m where x: "x = (name, m)" by (cases x)
  have "fst ` set (AList.update name (FloatCell (metric_compute m)) d) = {name} \<union> fst ` set d"
    by (simp only: dom_update)
  then show ?case by (auto simp: x Let_def Cons.IH)
qed

lemma get_metrics_dict_frame:
  assumes "get_metrics_dict E pfx step (t, w) = Inr (r, t', w')"
  shows "history t' = history t \<and> model t' = model t \<and> optimizer t' = optimizer t
     \<and> criterion t' = criterion t \<and> training t' = training t
     \<and> loss_logger t' = loss_logger t \<and> files w' = files w
     \<and> (\<exists>mc. metrics t = Some mc \<and> metrics t' = Some (mc\<lparr>prefix := pfx\<rparr>))
     \<and> (\<forall>k\<in>fst ` set r. \<exists>s. k = pfx @ s)"
proof -
  obtain time tm where ts: "timer_stop E (timer t) = (time, tm)" by force
  from assms ts obtain mc where mc: "metrics t = Some mc"
    by (auto simp: get_metrics_dict_def Let_def split: option.splits)
  let ?w1 = "add_scalar (pfx @ ''loss'') (MeanMetric_compute (loss_logger t)) step w"
  let ?items = "MetricCollection_items (mc\<lparr>prefix := pfx\<rparr>)"
  obtain ms w2 where lm: "log_metrics step ?items ([], ?w1) = (ms, w2)" by force
  from assms ts mc lm have
    r: "r = dict_merge [(pfx @ ''loss'', FloatCell (MeanMetric_compute (loss_logger t))),
                        (pfx @ ''time'', IntCell (int_of_float time))] ms"
    and t': "t' = t\<lparr>timer := tm, metrics := Some (mc\<lparr>prefix := pfx\<rparr>)\<rparr>" and w': "w' = w2"
    by (simp_all add: get_metrics_dict_def Let_def)
  have fw: "files w2 = files w"
    using log_metrics_files [of step ?items "[]" ?w1] lm by (simp add: add_scalar_def)
  have "fst ` set ms = fst ` set ?items"
    using log_metrics_keys [of step ?items "[]" ?w1] lm by simp
  then have km: "\<forall>k\<in>fst ` set ms. \<exists>s. k = pfx @ s"
    by (auto simp: MetricCollection_items_def)
  have "\<forall>k\<in>fst ` set r. \<exists>s. k = pfx @ s"
    unfolding r dict_merge_keys using km by auto
  then show ?thesis using mc fw by (simp add: t' w')
qed


lemma reset_metrics_frame:
  assumes "reset_metrics E t = Inr t'"
  shows "history t' = history t \<and> model t' = model t \<and> optimizer t' = optimizer t
     \<and> criterion t' = criterion t \<and> training t' = training t
     \<and> loss_logger t' = \<lparr>mean_value = 0, weight = 0\<rparr>
     \<and> timer t' = timer_reset E (timer t)
     \<and> (\<exists>mc. metrics t = Some mc \<and> metrics t' = Some (MetricCollection_reset mc))"
  using assms
  by (auto simp: reset_metrics_def MeanMetric_reset_def split: option.splits)

lemma set_train_mode_frame:
  assumes "set_train_mode enable t = Inr t'"
  shows "t' = t\<lparr>training := enable\<rparr> \<and> model t \<noteq> None"
  using assms by (auto simp: set_train_mode_def split: option.splits)

section \<open>One epoch\<close>

lemma train_one_epochE:
  assumes "train_one_epoch E epoch trl vl v (t, w) = Inr (result, t', w')"
  obtains t1 t2 w2 train_result t3 w3 t4 t5 t6 w6 val_result t7 w7 t8 opt g gs h where
    "set_train_mode True t = Inr t1"
    "batch_loop E Training epoch v (int (length trl)) 1 trl
       (t1\<lparr>timer := timer_start E (timer t1)\<rparr>, w) = Inr (t2, w2)"
    "get_metrics_dict E ''train/'' epoch (t2, w2) = Inr (train_result, t3, w3)"
    "reset_metrics E t3 = Inr t4"
    "set_train_mode False t4 = Inr t5"
    "batch_loop E Validating epoch v (int (length vl)) 1 vl
       (t5\<lparr>timer := timer_start E (timer t5)\<rparr>, w3) = Inr (t6, w6)"
    "get_metrics_dict E ''val/'' epoch (t6, w6) = Inr (val_result, t7, w7)"
    "reset_metrics E t7 = Inr t8"
    "optimizer t8 = Some opt" "param_groups opt = g # gs" "history t8 = Some h"
    "result = dict_merge (dict_merge [(''Epoch'', IntCell epoch), (''lr'', FloatCell (Float (lr g)))]
                 train_result) val_result"
    "t' = t8\<lparr>history := Some (h @ [result])\<rparr>" "w' = w7"
  using assms unfolding train_one_epoch_def Let_def
  by (auto split: sum.splits option.splits list.splits prod.splits)

lemma train_one_epoch_history:
  assumes "train_one_epoch E epoch trl vl v (t, w) = Inr (result, t', w')"
  shows "\<exists>h. history t = Some h \<and> history t' = Some (h @ [result])
     \<and> map_of result ''Epoch'' = Some (IntCell epoch) \<and> files w' = files w
     \<and> optimizer t' \<noteq> None \<and> model t' \<noteq> None"
proof -
  from assms obtain t1 t2 w2 train_result t3 w3 t4 t5 t6 w6 val_result t7 w7 t8 opt g gs h where
    s1: "set_train_mode True t = Inr t1"
    and b1: "batch_loop E Training epoch v (int (length trl)) 1 trl
       (t1\<lparr>timer := timer_start E (timer t1)\<rparr>, w) = Inr (t2, w2)"
    and g1: "get_metrics_dict E ''train/'' epoch (t2, w2) = Inr (train_result, t3, w3)"
    and r1: "reset_metrics E t3 = Inr t4"
    and s2: "set_train_mode False t4 = Inr t5"
    and b2: "batch_loop E Validating epoch v (int (length vl)) 1 vl
       (t5\<lparr>timer := timer_start E (timer t5)\<rparr>, w3) = Inr (t6, w6)"
    and g2: "get_metrics_dict E ''val/'' epoch (t6, w6) = Inr (val_result, t7, w7)"
    and r2: "reset_metrics E t7 = Inr t8"
    and o: "optimizer t8 = Some opt" and pg: "param_groups opt = g # gs"
    and h: "history t8 = Some h"
    and res: "result = dict_merge (dict_merge [(''Epoch'', IntCell epoch),
                 (''lr'', FloatCell (Float (lr g)))] train_result) val_result"
    and t': "t' = t8\<lparr>history := Some (h @ [result])\<rparr>" and w': "w' = w7"
    by (rule train_one_epochE)
  note f = set_train_mode_frame [OF s1] batch_loop_frame [OF b1] get_metrics_dict_frame [OF g1]
    reset_metrics_frame [OF r1] set_train_mode_frame [OF s2] batch_loop_frame [OF b2]
    get_metrics_dict_frame [OF g2] reset_metrics_frame [OF r2]
  have hist: "history t = Some h" using f h by simp
  have fl: "files w7 = files w" using f by simp
  have m8: "model t8 \<noteq> None" using f by simp
  have "''Epoch'' \<notin> fst ` set train_result" using f(3) by auto
  moreover have "''Epoch'' \<notin> fst ` set val_result" using f(7) by auto
  ultimately have "map_of result ''Epoch'' = Some (IntCell epoch)"
    by (simp add: res dict_merge_absent)
  with hist fl m8 o show ?thesis by (simp add: t' w')
qed








section \<open>File names\<close>

lemma digit_cases: "n < 10 \<Longrightarrow> n \<in> {0, 1, 2, 3, 4, 5, 6, 7, 8, 9::nat}"
  by auto

lemma digit_inj:
  assumes "a < 10" "b < 10" "digit a = digit b"
  shows "a = b"
  using digit_cases [OF assms(1)] digit_cases [OF assms(2)] assms(3)
  by (auto simp: digit_def)

lemma digit_not_sign:
  assumes "a < 10"
  shows "digit a \<noteq> CHR ''-''" "digit a \<noteq> CHR ''/''" "CHR ''-'' \<noteq> digit a" "CHR ''/'' \<noteq> digit a"
  using digit_cases [OF assms] by (auto simp: digit_def)

lemma str_nat_nonempty: "str_nat n \<noteq> []" "[] \<noteq> str_nat n"
  by (subst str_nat.simps, simp)+

lemma str_nat_hd: "\<exists>d<10. hd (str_nat n) = digit d"
proof (induction n rule: str_nat.induct)
  case (1 n)
  show ?case
  proof (cases "n < 10")
    case True
    then show ?thesis by (subst str_nat.simps) auto
  next
    case False
    with 1 obtain d where "d < 10" "hd (str_nat (n div 10)) = digit d" by auto
    with False show ?thesis
      by (subst str_nat.simps) (auto simp: str_nat_nonempty)
  qed
qed

lemma str_nat_inj: "str_nat n = str_nat m \<Longrightarrow> n = m"
proof (induction n arbitrary: m rule: str_nat.induct)
  case (1 n)
  show ?case
  proof (cases "n < 10")
    case n: True
    show ?thesis
    proof (cases "m < 10")
      case True
      with n "1.prems" show ?thesis
        by (simp add: str_nat.simps [of n] str_nat.simps [of m] digit_inj)
    next
      case False
      with n "1.prems" show ?thesis
        by (simp add: str_nat.simps [of n] str_nat.simps [of m] str_nat_nonempty)
    qed
  next
    case n: False
    show ?thesis
    proof (cases "m < 10")
      case True
      with n "1.prems" [symmetric] show ?thesis
        by (simp add: str_nat.simps [of n] str_nat.simps [of m] str_nat_nonempty)
    next
      case False
      with n "1.prems" have a: "str_nat (n div 10) = str_nat (m div 10)"
        and b: "digit (n mod 10) = digit (m mod 10)"
        by (simp_all add: str_nat.simps [of n] str_nat.simps [of m])
      from "1.IH" [OF n a] have "n div 10 = m div 10" .
      moreover from b have "n mod 10 = m mod 10" by (simp add: digit_inj)
      ultimately show ?thesis by (metis div_mult_mod_eq)
    qed
  qed
qed

lemma str_nonempty: "str i \<noteq> []"
  by (simp add: str_def str_nat_nonempty)

lemma str_hd: "hd (str i) \<noteq> CHR ''/''"
  using str_nat_hd [of "nat i"] by (auto simp: str_def digit_not_sign)

lemma str_inj: "str a = str b \<Longrightarrow> a = b"
proof -
  assume eq: "str a = str b"
  have neg: "CHR ''-'' # str_nat x \<noteq> str_nat y" for x y
  proof
    assume "CHR ''-'' # str_nat x = str_nat y"
    then have "hd (str_nat y) = CHR ''-''" by (metis list.sel(1))
    with str_nat_hd [of y] show False by (auto simp: digit_not_sign)
  qed
  show ?thesis
  proof (cases "a < 0"; cases "b < 0")
    assume "a < 0" "b < 0"
    with eq have "nat (- a) = nat (- b)" by (simp add: str_def str_nat_inj)
    with \<open>a < 0\<close> \<open>b < 0\<close> show ?thesis by simp
  next
    assume "a < 0" "\<not> b < 0"
    with eq neg show ?thesis by (simp add: str_def)
  next
    assume "\<not> a < 0" "b < 0"
    with eq neg [of "nat (- b)" "nat a"] show ?thesis by (simp add: str_def)
  next
    assume "\<not> a < 0" "\<not> b < 0"
    with eq have "nat a = nat b" by (simp add: str_def str_nat_inj)
    with \<open>\<not> a < 0\<close> \<open>\<not> b < 0\<close> show ?thesis by simp
  qed
qed

text \<open>The part of a joined path that comes before a relative file name.\<close>

lemma path_join_relative:
  "b \<noteq> [] \<Longrightarrow> hd b \<noteq> CHR ''/'' \<Longrightarrow>
   path_join a b = (if a = [] \<or> last a = CHR ''/'' then a else a @ ''/'') @ b"
  by (simp add: path_join_def)

lemma epoch_name_ne_history: "str e @ ''_epoch.pkl'' \<noteq> ''history.csv''"
proof
  assume "str e @ ''_epoch.pkl'' = ''history.csv''"
  then have "last (str e @ ''_epoch.pkl'') = last ''history.csv''" by simp
  then show False by simp
qed

lemma epoch_name_ne_checkpoint: "str e @ ''_epoch.pkl'' \<noteq> ''checkpoint.pkl''"
proof
  assume "str e @ ''_epoch.pkl'' = ''checkpoint.pkl''"
  then have "rev (str e @ ''_epoch.pkl'') ! 4 = rev ''checkpoint.pkl'' ! 4" by simp
  then show False by simp
qed

lemma path_join_epoch:
  "path_join dir (str e @ ''_epoch.pkl'')
     = (if dir = [] \<or> last dir = CHR ''/'' then dir else dir @ ''/'') @ str e @ ''_epoch.pkl''"
proof -
  have "hd (str e @ ''_epoch.pkl'') \<noteq> CHR ''/''" using str_hd [of e] str_nonempty [of e] by simp
  then show ?thesis by (simp add: path_join_relative)
qed

lemma epoch_path_inj:
  "path_join dir (str a @ ''_epoch.pkl'') = path_join dir (str b @ ''_epoch.pkl'') \<Longrightarrow> a = b"
  by (simp add: path_join_epoch str_inj)

lemma epoch_path_ne_history:
  "path_join dir (str e @ ''_epoch.pkl'') \<noteq> path_join dir ''history.csv''"
  using epoch_name_ne_history [of e]
  by (simp add: path_join_epoch path_join_relative)

lemma epoch_path_ne_checkpoint:
  "path_join dir (str e @ ''_epoch.pkl'') \<noteq> path_join dir ''checkpoint.pkl''"
  using epoch_name_ne_checkpoint [of e]
  by (simp add: path_join_epoch path_join_relative)

lemma checkpoint_ne_history:
  "path_join dir ''checkpoint.pkl'' \<noteq> path_join dir ''history.csv''"
  by (simp add: path_join_relative)

section \<open>The training run\<close>

lemma epoch_scheduler_step_frame:
  assumes "epoch_scheduler_step E sc t = (sc', t')"
  shows "history t' = history t \<and> model t' = model t
     \<and> (optimizer t \<noteq> None \<longrightarrow> optimizer t' \<noteq> None)"
  using assms
  by (auto simp: epoch_scheduler_step_def split: option.splits prod.splits)

lemma history_to_csv_files:
  assumes "history_to_csv E f (t, w) = (None, w')"
  shows "\<exists>h. files w' = (files w)(f \<mapsto> Csv h)"
  using assms
  by (auto simp: history_to_csv_def write_file_def
      split: option.splits write_outcome.splits prod.splits)

lemma save_checkpoint_files:
  assumes "save_checkpoint E f (t, w) = (None, w')"
  shows "\<exists>c. files w' = (files w)(f \<mapsto> Pickle c)"
  using assms
  by (auto simp: save_checkpoint_def write_file_def Let_def print_def
      split: option.splits write_outcome.splits prod.splits)

lemma history_to_csv_content:
  assumes "history_to_csv E f (t, w) = (None, w')"
  shows "\<exists>h. history t = Some h \<and> files w' = (files w)(f \<mapsto> Csv h)"
  using assms
  by (auto simp: history_to_csv_def write_file_def
      split: option.splits write_outcome.splits prod.splits)

lemma save_checkpoint_content:
  assumes "save_checkpoint E f (t, w) = (None, w')"
  shows "\<exists>m opt. model t = Some m \<and> optimizer t = Some opt
     \<and> files w' = (files w)(f \<mapsto> Pickle \<lparr>ckpt_model = m, ckpt_optimizer = opt,
                                          ckpt_history = history t\<rparr>)"
  using assms
  by (auto simp: save_checkpoint_def write_file_def Let_def print_def
      split: option.splits write_outcome.splits prod.splits)

lemma train_epochs_stepE:
  assumes "train_epochs E N trl vl v k dir (e # es) (tt, sc, t, w) = Inr final"
  obtains s tt1 result t1 w1 w2 sc1 t2 w3 where
    "timer_call E tt e N = (s, tt1)"
    "train_one_epoch E e (trl e) (vl e) v (t, print (EpochHeader e N s) w) = Inr (result, t1, w1)"
    "history_to_csv E (path_join dir ''history.csv'') (t1, print (ResultLine result) w1) = (None, w2)"
    "epoch_scheduler_step E sc t1 = (sc1, t2)"
    "0 < k \<and> e mod k = 0 \<longrightarrow>
       save_checkpoint E (path_join dir (str e @ ''_epoch.pkl'')) (t2, w2) = (None, w3)"
    "\<not> (0 < k \<and> e mod k = 0) \<longrightarrow> w3 = w2"
    "train_epochs E N trl vl v k dir es (tt1, sc1, t2, w3) = Inr final"
  using assms
  by (auto split: sum.splits option.splits prod.splits if_splits)

lemma train_epochs_history:
  "train_epochs E N trl vl v k dir es (tt, sc, t, w) = Inr (tt', sc', t', w') \<Longrightarrow>
   history t = Some h \<Longrightarrow>
   \<exists>rows. history t' = Some (h @ rows)
     \<and> map (\<lambda>r. map_of r ''Epoch'') rows = map (\<lambda>e. Some (IntCell e)) es"
proof (induction es arbitrary: tt sc t w h)
  case Nil
  then show ?case by simp
next
  case (Cons e es)
  from Cons.prems(1) obtain s tt1 result t1 w1 w2 sc1 t2 w3 where
    toe: "train_one_epoch E e (trl e) (vl e) v (t, print (EpochHeader e N s) w) = Inr (result, t1, w1)"
    and ss: "epoch_scheduler_step E sc t1 = (sc1, t2)"
    and rest: "train_epochs E N trl vl v k dir es (tt1, sc1, t2, w3) = Inr (tt', sc', t', w')"
    by (rule train_epochs_stepE)
  from train_one_epoch_history [OF toe] Cons.prems(2)
  have h1: "history t1 = Some (h @ [result])" and ep: "map_of result ''Epoch'' = Some (IntCell e)"
    by auto
  from epoch_scheduler_step_frame [OF ss] h1 have h2: "history t2 = Some (h @ [result])" by simp
  from Cons.IH [OF rest h2] obtain rows where
    "history t' = Some ((h @ [result]) @ rows)"
    "map (\<lambda>r. map_of r ''Epoch'') rows = map (\<lambda>e. Some (IntCell e)) es" by blast
  with ep show ?case by (intro exI [of _ "result # rows"]) simp
qed

lemma train_epochs_frame:
  "train_epochs E N trl vl v k dir es (tt, sc, t, w) = Inr (tt', sc', t', w') \<Longrightarrow>
   p \<noteq> path_join dir ''history.csv'' \<Longrightarrow>
   \<forall>e\<in>set es. 0 < k \<and> e mod k = 0 \<longrightarrow> p \<noteq> path_join dir (str e @ ''_epoch.pkl'') \<Longrightarrow>
   files w' p = files w p"
proof (induction es arbitrary: tt sc t w)
  case Nil
  then show ?case by simp
next
  case (Cons e es)
  from Cons.prems(1) obtain s tt1 result t1 w1 w2 sc1 t2 w3 where
    toe: "train_one_epoch E e (trl e) (vl e) v (t, print (EpochHeader e N s) w) = Inr (result, t1, w1)"
    and csv: "history_to_csv E (path_join dir ''history.csv'') (t1, print (ResultLine result) w1) = (None, w2)"
    and sv: "0 < k \<and> e mod k = 0 \<longrightarrow>
       save_checkpoint E (path_join dir (str e @ ''_epoch.pkl'')) (t2, w2) = (None, w3)"
    and nsv: "\<not> (0 < k \<and> e mod k = 0) \<longrightarrow> w3 = w2"
    and rest: "train_epochs E N trl vl v k dir es (tt1, sc1, t2, w3) = Inr (tt', sc', t', w')"
    by (rule train_epochs_stepE)
  from train_one_epoch_history [OF toe] have "files w1 = files w" by (auto simp: print_def)
  with history_to_csv_files [OF csv] Cons.prems(2)
  have w2: "files w2 p = files w p" by (auto simp: print_def)
  have w3: "files w3 p = files w p"
  proof (cases "0 < k \<and> e mod k = 0")
    case True
    with sv have "save_checkpoint E (path_join dir (str e @ ''_epoch.pkl'')) (t2, w2) = (None, w3)"
      by simp
    from save_checkpoint_files [OF this] w2 True Cons.prems(3) show ?thesis by auto
  next
    case False
    with nsv w2 show ?thesis by simp
  qed
  from Cons.prems(3) have "\<forall>e\<in>set es. 0 < k \<and> e mod k = 0 \<longrightarrow> p \<noteq> path_join dir (str e @ ''_epoch.pkl'')"
    by simp
  from Cons.IH [OF rest Cons.prems(2) this] w3 show ?case by simp
qed

lemmas example_defs = example_trainer_def BaseTrainer_init_def example_env_def empty_world_def
  example_optimizer_def example_metrics_def MetricCollection_init_def l1_loss_def

lemmas run_defs = train_one_epoch_def set_train_mode_def one_batch_def train_one_batch_def
  val_one_batch_def get_metrics_dict_def reset_metrics_def MetricCollection_update_def
  MetricCollection_reset_def MetricCollection_items_def loss_logger_forward_def
  MeanMetric_update_def MeanMetric_compute_def MeanMetric_reset_def
  MeanAbsoluteError_compute_def MeanAbsoluteError_reset_def MeanAbsoluteError_update_def
  Log10AverageError_update_def ThresholdAccuracy_update_def ThresholdAccuracy_init_def
  tensor_div_def maximum_def broadcast_op_def clamp_min_def log10_def
  reset_all_def compute_groups_create_state_ref_def link_group_def copy_state_def
  merge_compute_groups.simps find_merge_def mergeable_def all_states_close_def allclose_def
  dict_merge_def print_def add_scalar_def int_of_float_def Let_def

lemmas train_defs = train_py_def train_def history_to_csv_def save_checkpoint_def write_file_def
  epoch_scheduler_step_def path_join_def str_def str_nat.simps digit_def

text \<open>
  Claim C4. When \<open>train\<close> has completed its \<open>N\<close> epochs, the history is the history it
  started with followed by exactly \<open>N\<close> rows (none when \<open>N\<close> is not positive), one per
  epoch, whose \<open>Epoch\<close> entries are \<open>1, ..., N\<close> in this order. On a fresh trainer, whose
  history is empty, these are all the rows.
\<close>

theorem history_one_row_per_epoch:
  assumes run: "train E N trl vl sched v k dir (t, w) = Inr (sched', t', w')"
    and h: "history t = Some h"
  shows "\<exists>rows. history t' = Some (h @ rows) \<and> length rows = nat N
     \<and> map (\<lambda>r. map_of r ''Epoch'') rows = map (\<lambda>e. Some (IntCell e)) [1..N]"
proof -
  from run obtain tt' where
    "train_epochs E N trl vl v k dir [1..N] (Timer E, sched, t, w) = Inr (tt', sched', t', w')"
    by (auto simp: train_def split: sum.splits)
  from train_epochs_history [OF this h] obtain rows where
    rows: "history t' = Some (h @ rows)"
      "map (\<lambda>r. map_of r ''Epoch'') rows = map (\<lambda>e. Some (IntCell e)) [1..N]" by blast
  from rows(2) have "length rows = length [1..N]" by (metis length_map)
  with rows show ?thesis by auto
qed

lemma example_train_runs:
  "\<exists>x. train example_env 2 (\<lambda>e. [([1], [1], [''a''])]) (\<lambda>e. [([1], [1], [''b''])]) None 1 0 ''out''
          (example_trainer, empty_world) = Inr x"
  by (simp add: example_defs run_defs train_defs upto.simps)

theorem history_one_row_per_epoch_witness:
  "\<exists>sched' t' w' rows.
     train example_env 2 (\<lambda>e. [([1], [1], [''a''])]) (\<lambda>e. [([1], [1], [''b''])]) None 1 0 ''out''
       (example_trainer, empty_world) = Inr (sched', t', w')
     \<and> history t' = Some rows \<and> length rows = 2
     \<and> map (\<lambda>r. map_of r ''Epoch'') rows = [Some (IntCell 1), Some (IntCell 2)]"
proof -
  from example_train_runs obtain sched' t' w' where
    run: "train example_env 2 (\<lambda>e. [([1], [1], [''a''])]) (\<lambda>e. [([1], [1], [''b''])]) None 1 0 ''out''
       (example_trainer, empty_world) = Inr (sched', t', w')"
    by (metis prod_cases3)
  have h: "history example_trainer = Some []" by (simp add: example_trainer_def BaseTrainer_init_def)
  from history_one_row_per_epoch [OF run h] run show ?thesis
    by (auto simp: upto.simps)
qed

lemma train_epochs_append:
  "train_epochs E N trl vl v k dir (xs @ ys) s =
     (case train_epochs E N trl vl v k dir xs s of
        Inl err \<Rightarrow> Inl err
      | Inr s' \<Rightarrow> train_epochs E N trl vl v k dir ys s')"
proof (induction xs arbitrary: s)
  case Nil
  then show ?case by simp
next
  case (Cons x xs)
  obtain tt sc t w where s: "s = (tt, sc, t, w)" by (cases s)
  show ?case
    unfolding s append_Cons train_epochs.simps
    by (auto simp: Cons.IH split: prod.splits sum.splits option.splits)
qed

lemma train_epochs_appendE:
  assumes "train_epochs E N trl vl v k dir (xs @ ys) s = Inr final"
  obtains s' where "train_epochs E N trl vl v k dir xs s = Inr s'"
    "train_epochs E N trl vl v k dir ys s' = Inr final"
  using assms unfolding train_epochs_append by (auto split: sum.splits)

lemma train_epochs_one:
  assumes "train_epochs E N trl vl v k dir [a] (tt, sc, t, w) = Inr (tt', sc', t', w')"
  shows "(\<exists>h. history t' = Some h \<and> files w' (path_join dir ''history.csv'') = Some (Csv h))
     \<and> (0 < k \<and> a mod k = 0 \<longrightarrow>
          (\<exists>m opt. model t' = Some m \<and> optimizer t' = Some opt
             \<and> files w' (path_join dir (str a @ ''_epoch.pkl''))
                 = Some (Pickle \<lparr>ckpt_model = m, ckpt_optimizer = opt,
                                 ckpt_history = history t'\<rparr>)))"
proof -
  from assms obtain s tt1 result t1 w1 w2 sc1 t2 w3 where
    csv: "history_to_csv E (path_join dir ''history.csv'') (t1, print (ResultLine result) w1)
        = (None, w2)"
    and ss: "epoch_scheduler_step E sc t1 = (sc1, t2)"
    and sv: "0 < k \<and> a mod k = 0 \<longrightarrow>
       save_checkpoint E (path_join dir (str a @ ''_epoch.pkl'')) (t2, w2) = (None, w3)"
    and nsv: "\<not> (0 < k \<and> a mod k = 0) \<longrightarrow> w3 = w2"
    and rest: "train_epochs E N trl vl v k dir [] (tt1, sc1, t2, w3) = Inr (tt', sc', t', w')"
    by (rule train_epochs_stepE)
  from rest have fin: "t' = t2" "w' = w3" by simp_all
  from history_to_csv_content [OF csv] obtain h where
    h: "history t1 = Some h"
    and w2: "files w2 = (files (print (ResultLine result) w1))(path_join dir ''history.csv'' \<mapsto> Csv h)"
    by blast
  from epoch_scheduler_step_frame [OF ss] h have h2: "history t2 = Some h" by simp
  show ?thesis
  proof (cases "0 < k \<and> a mod k = 0")
    case True
    with sv have "save_checkpoint E (path_join dir (str a @ ''_epoch.pkl'')) (t2, w2) = (None, w3)"
      by simp
    from save_checkpoint_content [OF this] obtain m opt where
      c: "model t2 = Some m" "optimizer t2 = Some opt"
        "files w3 = (files w2)(path_join dir (str a @ ''_epoch.pkl'') \<mapsto>
           Pickle \<lparr>ckpt_model = m, ckpt_optimizer = opt, ckpt_history = history t2\<rparr>)"
      by blast
    have "files w3 (path_join dir ''history.csv'') = Some (Csv h)"
      using epoch_path_ne_history [of dir a] by (simp add: c(3) w2)
    with h2 c show ?thesis by (simp add: fin)
  next
    case False
    with nsv have "w3 = w2" by simp
    with h2 w2 have "\<exists>h. history t' = Some h
        \<and> files w' (path_join dir ''history.csv'') = Some (Csv h)"
      by (simp add: fin)
    with False show ?thesis by blast
  qed
qed

lemma train_epochs_checkpoint:
  assumes run: "train_epochs E N trl vl v k dir [1..e] s = Inr (tt_e, sc_e, t_e, w_e)"
    and a: "1 \<le> a" "a \<le> e" "0 < k" "a mod k = 0"
  shows "\<exists>tt_a sc_a t_a w_a m opt.
     train_epochs E N trl vl v k dir [1..a] s = Inr (tt_a, sc_a, t_a, w_a)
     \<and> model t_a = Some m \<and> optimizer t_a = Some opt
     \<and> files w_a (path_join dir (str a @ ''_epoch.pkl''))
         = Some (Pickle \<lparr>ckpt_model = m, ckpt_optimizer = opt, ckpt_history = history t_a\<rparr>)
     \<and> files w_e (path_join dir (str a @ ''_epoch.pkl''))
         = files w_a (path_join dir (str a @ ''_epoch.pkl''))"
proof -
  have split: "[1..e] = [1..a - 1] @ [a] @ [a + 1..e]"
    using upto_split3 [OF a(1,2)] by simp
  from run obtain s1 where
    p1: "train_epochs E N trl vl v k dir [1..a - 1] s = Inr s1"
    and r1: "train_epochs E N trl vl v k dir ([a] @ [a + 1..e]) s1 = Inr (tt_e, sc_e, t_e, w_e)"
    unfolding split by (rule train_epochs_appendE)
  from r1 obtain s2 where
    p2: "train_epochs E N trl vl v k dir [a] s1 = Inr s2"
    and r2: "train_epochs E N trl vl v k dir [a + 1..e] s2 = Inr (tt_e, sc_e, t_e, w_e)"
    by (rule train_epochs_appendE)
  obtain tt1 sc1 t1 w1 where s1: "s1 = (tt1, sc1, t1, w1)" by (cases s1)
  obtain tt_a sc_a t_a w_a where s2: "s2 = (tt_a, sc_a, t_a, w_a)" by (cases s2)
  have "[1..a] = [1..a - 1] @ [a]" using a(1) by (simp add: upto_rec2)
  then have pa: "train_epochs E N trl vl v k dir [1..a] s = Inr (tt_a, sc_a, t_a, w_a)"
    by (simp add: train_epochs_append p1 p2 s2)
  from train_epochs_one [OF p2 [unfolded s1 s2]] a(3,4) obtain m opt where
    c: "model t_a = Some m" "optimizer t_a = Some opt"
      "files w_a (path_join dir (str a @ ''_epoch.pkl''))
         = Some (Pickle \<lparr>ckpt_model = m, ckpt_optimizer = opt, ckpt_history = history t_a\<rparr>)"
    by blast
  have "files w_e (path_join dir (str a @ ''_epoch.pkl''))
      = files w_a (path_join dir (str a @ ''_epoch.pkl''))"
  proof (rule train_epochs_frame [OF r2 [unfolded s2]])
    show "path_join dir (str a @ ''_epoch.pkl'') \<noteq> path_join dir ''history.csv''"
      by (rule epoch_path_ne_history)
    show "\<forall>e'\<in>set [a + 1..e]. 0 < k \<and> e' mod k = 0 \<longrightarrow>
        path_join dir (str a @ ''_epoch.pkl'') \<noteq> path_join dir (str e' @ ''_epoch.pkl'')"
    proof (intro ballI impI notI)
      fix e' assume "e' \<in> set [a + 1..e]"
        and "path_join dir (str a @ ''_epoch.pkl'') = path_join dir (str e' @ ''_epoch.pkl'')"
      then have "a + 1 \<le> e'" "a = e'" by (simp, intro epoch_path_inj)
      then show False by simp
    qed
  qed
  with pa c show ?thesis by blast
qed

lemma train_epochs_other_paths:
  assumes run: "train_epochs E N trl vl v k dir [1..e] (tt, sc, t, w) = Inr (tt_e, sc_e, t_e, w_e)"
    and p: "p \<noteq> path_join dir ''history.csv''"
      "\<forall>a. 1 \<le> a \<and> a \<le> e \<and> 0 < k \<and> a mod k = 0 \<longrightarrow> p \<noteq> path_join dir (str a @ ''_epoch.pkl'')"
  shows "files w_e p = files w p"
proof (rule train_epochs_frame [OF run p(1)])
  show "\<forall>a\<in>set [1..e]. 0 < k \<and> a mod k = 0 \<longrightarrow> p \<noteq> path_join dir (str a @ ''_epoch.pkl'')"
    using p(2) by simp
qed

lemma train_epochs_history_file:
  assumes run: "train_epochs E N trl vl v k dir [1..e] s = Inr (tt_e, sc_e, t_e, w_e)"
    and e: "1 \<le> e"
  shows "\<exists>h. history t_e = Some h \<and> files w_e (path_join dir ''history.csv'') = Some (Csv h)"
proof -
  have "[1..e] = [1..e - 1] @ [e]" using e by (simp add: upto_rec2)
  with run obtain s1 where
    "train_epochs E N trl vl v k dir [e] s1 = Inr (tt_e, sc_e, t_e, w_e)"
    by (metis train_epochs_appendE)
  then show ?thesis
    using train_epochs_one [of E N trl vl v k dir e _ _ _ _ tt_e sc_e t_e w_e]
    by (cases s1) auto
qed

lemma train_pyE:
  assumes "train_py E N trl vl sched v k dir (t, w) = Inr (t', w')"
  obtains s2 t2 w2 w3 where
    "train E N trl vl sched v k dir (t, w) = Inr (s2, t2, w2)"
    "save_checkpoint E (path_join dir ''checkpoint.pkl'') (t2, w2) = (None, w3)"
    "history_to_csv E (path_join dir ''history.csv'') (t2, w3) = (None, w')"
    "t' = t2"
proof -
  from assms obtain s2 t2 w2 where
    run: "train E N trl vl sched v k dir (t, w) = Inr (s2, t2, w2)"
    by (cases "train E N trl vl sched v k dir (t, w)") (auto simp: train_py_def)
  obtain e3 w3 where sv: "save_checkpoint E (path_join dir ''checkpoint.pkl'') (t2, w2) = (e3, w3)"
    by force
  obtain e4 w4 where csv: "history_to_csv E (path_join dir ''history.csv'') (t2, w3) = (e4, w4)"
    by force
  from assms run sv have e3: "e3 = None"
    by (cases e3) (simp_all add: train_py_def)
  from assms run sv csv e3 have "e4 = None \<and> w4 = w' \<and> t' = t2"
    by (cases e4) (simp_all add: train_py_def)
  with run sv csv e3 that show thesis by simp
qed

lemma train_py_files:
  assumes tr: "train E N trl vl sched v k dir (t, w) = Inr (sc_e, t_e, w_e)"
    and py: "train_py E N trl vl sched v k dir (t, w) = Inr (t', w')"
  shows "t' = t_e
     \<and> (\<exists>m opt. model t_e = Some m \<and> optimizer t_e = Some opt
          \<and> files w' (path_join dir ''checkpoint.pkl'')
              = Some (Pickle \<lparr>ckpt_model = m, ckpt_optimizer = opt,
                              ckpt_history = history t_e\<rparr>))
     \<and> (\<exists>h. history t_e = Some h \<and> files w' (path_join dir ''history.csv'') = Some (Csv h))
     \<and> (\<forall>p. p \<noteq> path_join dir ''history.csv'' \<and> p \<noteq> path_join dir ''checkpoint.pkl'' \<longrightarrow>
            files w' p = files w_e p)"
proof -
  from py obtain s2 t2 w2 w3 where
    run: "train E N trl vl sched v k dir (t, w) = Inr (s2, t2, w2)"
    and sv: "save_checkpoint E (path_join dir ''checkpoint.pkl'') (t2, w2) = (None, w3)"
    and csv: "history_to_csv E (path_join dir ''history.csv'') (t2, w3) = (None, w')"
    and t': "t' = t2"
    by (rule train_pyE)
  from run tr have eq: "t2 = t_e" "w2 = w_e" by simp_all
  from save_checkpoint_content [OF sv] obtain m opt where
    c: "model t_e = Some m" "optimizer t_e = Some opt"
      "files w3 = (files w_e)(path_join dir ''checkpoint.pkl'' \<mapsto>
         Pickle \<lparr>ckpt_model = m, ckpt_optimizer = opt, ckpt_history = history t_e\<rparr>)"
    unfolding eq by blast
  from history_to_csv_content [OF csv] obtain h where
    h: "history t_e = Some h" "files w' = (files w3)(path_join dir ''history.csv'' \<mapsto> Csv h)"
    unfolding eq by blast
  have "files w' (path_join dir ''checkpoint.pkl'')
      = Some (Pickle \<lparr>ckpt_model = m, ckpt_optimizer = opt, ckpt_history = history t_e\<rparr>)"
    using checkpoint_ne_history [of dir] by (simp add: h(2) c(3))
  moreover have "files w' (path_join dir ''history.csv'') = Some (Csv h)"
    by (simp add: h(2))
  moreover have "\<forall>p. p \<noteq> path_join dir ''history.csv'' \<and> p \<noteq> path_join dir ''checkpoint.pkl''
      \<longrightarrow> files w' p = files w_e p"
    by (simp add: h(2) c(3))
  ultimately show ?thesis using c(1,2) h(1) t' eq(1) by blast
qed

text \<open>
  Claim C7. Let the loop of \<open>train\<close>, with checkpoint interval \<open>k\<close>, have completed the
  epochs \<open>1, ..., e\<close> (for \<open>e = N\<close> that is the whole of \<open>train\<close>; for a run that raises in
  a later epoch it is the part before). Then for every epoch \<open>a\<close> of \<open>1, ..., e\<close> with
  \<open>k > 0\<close> and \<open>a\<close> a multiple of \<open>k\<close>, the file \<open><a>_epoch.pkl\<close> in the checkpoint
  directory was written right after epoch \<open>a\<close> and still holds the checkpoint of that
  moment: the model, the optimizer and the history as they were when the loop had completed
  the epochs \<open>1, ..., a\<close>. The history file holds the history, and every other path is what
  it was before the run: no checkpoint is written after an epoch that is not a multiple of
  \<open>k\<close>, nor when \<open>k\<close> is not positive. The last lines of train.py then write the final
  \<open>checkpoint.pkl\<close> from the trainer that \<open>train\<close> leaves, write the history file again
  and change no other path.
\<close>

theorem checkpoint_every_k_epochs:
  assumes run: "train_epochs E N trl vl v k dir [1..e] (Timer E, sched, t, w)
      = Inr (tt_e, sc_e, t_e, w_e)"
  shows "(\<forall>a. 1 \<le> a \<and> a \<le> e \<and> 0 < k \<and> a mod k = 0 \<longrightarrow>
           (\<exists>tt_a sc_a t_a w_a m opt.
              train_epochs E N trl vl v k dir [1..a] (Timer E, sched, t, w)
                = Inr (tt_a, sc_a, t_a, w_a)
              \<and> model t_a = Some m \<and> optimizer t_a = Some opt
              \<and> files w_a (path_join dir (str a @ ''_epoch.pkl''))
                  = Some (Pickle \<lparr>ckpt_model = m, ckpt_optimizer = opt,
                                  ckpt_history = history t_a\<rparr>)
              \<and> files w_e (path_join dir (str a @ ''_epoch.pkl''))
                  = files w_a (path_join dir (str a @ ''_epoch.pkl''))))
     \<and> (\<forall>p. p \<noteq> path_join dir ''history.csv''
            \<and> (\<forall>a. 1 \<le> a \<and> a \<le> e \<and> 0 < k \<and> a mod k = 0 \<longrightarrow>
                   p \<noteq> path_join dir (str a @ ''_epoch.pkl'')) \<longrightarrow>
            files w_e p = files w p)
     \<and> (1 \<le> e \<longrightarrow>
          (\<exists>h. history t_e = Some h \<and> files w_e (path_join dir ''history.csv'') = Some (Csv h)))
     \<and> (e = N \<longrightarrow>
          train E N trl vl sched v k dir (t, w) = Inr (sc_e, t_e, w_e)
          \<and> (\<forall>t' w'. train_py E N trl vl sched v k dir (t, w) = Inr (t', w') \<longrightarrow>
                t' = t_e
                \<and> (\<exists>m opt. model t_e = Some m \<and> optimizer t_e = Some opt
                     \<and> files w' (path_join dir ''checkpoint.pkl'')
                         = Some (Pickle \<lparr>ckpt_model = m, ckpt_optimizer = opt,
                                         ckpt_history = history t_e\<rparr>))
                \<and> (\<exists>h. history t_e = Some h
                     \<and> files w' (path_join dir ''history.csv'') = Some (Csv h))
                \<and> (\<forall>p. p \<noteq> path_join dir ''history.csv''
                       \<and> p \<noteq> path_join dir ''checkpoint.pkl'' \<longrightarrow>
                       files w' p = files w_e p)))"
proof (intro conjI)
  show "\<forall>a. 1 \<le> a \<and> a \<le> e \<and> 0 < k \<and> a mod k = 0 \<longrightarrow>
           (\<exists>tt_a sc_a t_a w_a m opt.
              train_epochs E N trl vl v k dir [1..a] (Timer E, sched, t, w)
                = Inr (tt_a, sc_a, t_a, w_a)
              \<and> model t_a = Some m \<and> optimizer t_a = Some opt
              \<and> files w_a (path_join dir (str a @ ''_epoch.pkl''))
                  = Some (Pickle \<lparr>ckpt_model = m, ckpt_optimizer = opt,
                                  ckpt_history = history t_a\<rparr>)
              \<and> files w_e (path_join dir (str a @ ''_epoch.pkl''))
                  = files w_a (path_join dir (str a @ ''_epoch.pkl'')))"
  proof (intro allI impI)
    fix a assume "1 \<le> a \<and> a \<le> e \<and> 0 < k \<and> a mod k = 0"
    then have a: "1 \<le> a" "a \<le> e" "0 < k" "a mod k = 0" by simp_all
    show "\<exists>tt_a sc_a t_a w_a m opt.
              train_epochs E N trl vl v k dir [1..a] (Timer E, sched, t, w)
                = Inr (tt_a, sc_a, t_a, w_a)
              \<and> model t_a = Some m \<and> optimizer t_a = Some opt
              \<and> files w_a (path_join dir (str a @ ''_epoch.pkl''))
                  = Some (Pickle \<lparr>ckpt_model = m, ckpt_optimizer = opt,
                                  ckpt_history = history t_a\<rparr>)
              \<and> files w_e (path_join dir (str a @ ''_epoch.pkl''))
                  = files w_a (path_join dir (str a @ ''_epoch.pkl''))"
      by (rule train_epochs_checkpoint [OF run a])
  qed
  show "\<forall>p. p \<noteq> path_join dir ''history.csv''
            \<and> (\<forall>a. 1 \<le> a \<and> a \<le> e \<and> 0 < k \<and> a mod k = 0 \<longrightarrow>
                   p \<noteq> path_join dir (str a @ ''_epoch.pkl'')) \<longrightarrow>
            files w_e p = files w p"
  proof (intro allI impI)
    fix p assume "p \<noteq> path_join dir ''history.csv''
            \<and> (\<forall>a. 1 \<le> a \<and> a \<le> e \<and> 0 < k \<and> a mod k = 0 \<longrightarrow>
                   p \<noteq> path_join dir (str a @ ''_epoch.pkl''))"
    then show "files w_e p = files w p"
      by (intro train_epochs_other_paths [OF run]) simp_all
  qed
  show "1 \<le> e \<longrightarrow>
          (\<exists>h. history t_e = Some h \<and> files w_e (path_join dir ''history.csv'') = Some (Csv h))"
    using train_epochs_history_file [OF run] by simp
  show "e = N \<longrightarrow>
          train E N trl vl sched v k dir (t, w) = Inr (sc_e, t_e, w_e)
          \<and> (\<forall>t' w'. train_py E N trl vl sched v k dir (t, w) = Inr (t', w') \<longrightarrow>
                t' = t_e
                \<and> (\<exists>m opt. model t_e = Some m \<and> optimizer t_e = Some opt
                     \<and> files w' (path_join dir ''checkpoint.pkl'')
                         = Some (Pickle \<lparr>ckpt_model = m, ckpt_optimizer = opt,
                                         ckpt_history = history t_e\<rparr>))
                \<and> (\<exists>h. history t_e = Some h
                     \<and> files w' (path_join dir ''history.csv'') = Some (Csv h))
                \<and> (\<forall>p. p \<noteq> path_join dir ''history.csv''
                       \<and> p \<noteq> path_join dir ''checkpoint.pkl'' \<longrightarrow>
                       files w' p = files w_e p))"
  proof (intro impI conjI)
    assume eN: "e = N"
    with run show tr: "train E N trl vl sched v k dir (t, w) = Inr (sc_e, t_e, w_e)"
      by (simp add: train_def)
    show "\<forall>t' w'. train_py E N trl vl sched v k dir (t, w) = Inr (t', w') \<longrightarrow>
                t' = t_e
                \<and> (\<exists>m opt. model t_e = Some m \<and> optimizer t_e = Some opt
                     \<and> files w' (path_join dir ''checkpoint.pkl'')
                         = Some (Pickle \<lparr>ckpt_model = m, ckpt_optimizer = opt,
                                         ckpt_history = history t_e\<rparr>))
                \<and> (\<exists>h. history t_e = Some h
                     \<and> files w' (path_join dir ''history.csv'') = Some (Csv h))
                \<and> (\<forall>p. p \<noteq> path_join dir ''history.csv''
                       \<and> p \<noteq> path_join dir ''checkpoint.pkl'' \<longrightarrow>
                       files w' p = files w_e p)"
    proof (intro allI impI)
      fix t' w'
      assume "train_py E N trl vl sched v k dir (t, w) = Inr (t', w')"
      then show "t' = t_e
                \<and> (\<exists>m opt. model t_e = Some m \<and> optimizer t_e = Some opt
                     \<and> files w' (path_join dir ''checkpoint.pkl'')
                         = Some (Pickle \<lparr>ckpt_model = m, ckpt_optimizer = opt,
                                         ckpt_history = history t_e\<rparr>))
                \<and> (\<exists>h. history t_e = Some h
                     \<and> files w' (path_join dir ''history.csv'') = Some (Csv h))
                \<and> (\<forall>p. p \<noteq> path_join dir ''history.csv''
                       \<and> p \<noteq> path_join dir ''checkpoint.pkl'' \<longrightarrow>
                       files w' p = files w_e p)"
        by (rule train_py_files [OF tr])
    qed
  qed
qed

lemma example_train_py_runs:
  "\<exists>x. train_py example_env 3 (\<lambda>e. [([1], [1], [''a''])]) (\<lambda>e. [([1], [1], [''b''])]) None 1 2 ''out''
          (example_trainer, empty_world) = Inr x"
  by (simp add: example_defs run_defs train_defs upto.simps)

lemma example_two_epochs:
  "\<exists>tt sc t w rows.
     train_epochs example_env 3 (\<lambda>e. [([1], [1], [''a''])]) (\<lambda>e. [([1], [1], [''b''])]) 1 2 ''out''
       [1..2] (Timer example_env, None, example_trainer, empty_world) = Inr (tt, sc, t, w)
     \<and> model t = Some [(''w'', [1])] \<and> optimizer t = Some example_optimizer
     \<and> history t = Some rows \<and> length rows = 2"
  by (simp add: example_defs run_defs train_defs upto.simps)

lemma example_three_epochs:
  "\<exists>tt sc t w rows.
     train_epochs example_env 3 (\<lambda>e. [([1], [1], [''a''])]) (\<lambda>e. [([1], [1], [''b''])]) 1 2 ''out''
       [1..3] (Timer example_env, None, example_trainer, empty_world) = Inr (tt, sc, t, w)
     \<and> model t = Some [(''w'', [1])] \<and> optimizer t = Some example_optimizer
     \<and> history t = Some rows \<and> length rows = 3"
  by (simp add: example_defs run_defs train_defs upto.simps)

theorem checkpoint_every_k_epochs_witness:
  "\<exists>t' w' rows2 rows3.
     train_py example_env 3 (\<lambda>e. [([1], [1], [''a''])]) (\<lambda>e. [([1], [1], [''b''])]) None 1 2 ''out''
       (example_trainer, empty_world) = Inr (t', w')
     \<and> files w' ''out/1_epoch.pkl'' = None
     \<and> files w' ''out/2_epoch.pkl''
         = Some (Pickle \<lparr>ckpt_model = [(''w'', [1])], ckpt_optimizer = example_optimizer,
                         ckpt_history = Some rows2\<rparr>)
     \<and> length rows2 = 2
     \<and> files w' ''out/3_epoch.pkl'' = None
     \<and> files w' ''out/checkpoint.pkl''
         = Some (Pickle \<lparr>ckpt_model = [(''w'', [1])], ckpt_optimizer = example_optimizer,
                         ckpt_history = Some rows3\<rparr>)
     \<and> files w' ''out/history.csv'' = Some (Csv rows3)
     \<and> length rows3 = 3
     \<and> files w' ''out/best.pkl'' = None"
proof -
  let ?trl = "\<lambda>e::int. [([1::real], [1::real], [''a''])]"
  let ?vl = "\<lambda>e::int. [([1::real], [1::real], [''b''])]"
  from example_train_py_runs obtain t' w' where
    py: "train_py example_env 3 ?trl ?vl None 1 2 ''out'' (example_trainer, empty_world)
       = Inr (t', w')"
    by (metis prod.exhaust)
  from example_three_epochs obtain tt3 sc3 t3 w3 rows3 where
    run3: "train_epochs example_env 3 ?trl ?vl 1 2 ''out'' [1..3]
       (Timer example_env, None, example_trainer, empty_world) = Inr (tt3, sc3, t3, w3)"
    and t3: "model t3 = Some [(''w'', [1])]" "optimizer t3 = Some example_optimizer"
      "history t3 = Some rows3" "length rows3 = 3"
    by blast
  from example_two_epochs obtain tt2 sc2 t2 w2 rows2 where
    run2: "train_epochs example_env 3 ?trl ?vl 1 2 ''out'' [1..2]
       (Timer example_env, None, example_trainer, empty_world) = Inr (tt2, sc2, t2, w2)"
    and t2: "model t2 = Some [(''w'', [1])]" "optimizer t2 = Some example_optimizer"
      "history t2 = Some rows2" "length rows2 = 2"
    by blast
  have names: "path_join ''out'' (str 1 @ ''_epoch.pkl'') = ''out/1_epoch.pkl''"
    "path_join ''out'' (str 2 @ ''_epoch.pkl'') = ''out/2_epoch.pkl''"
    "path_join ''out'' (str 3 @ ''_epoch.pkl'') = ''out/3_epoch.pkl''"
    "path_join ''out'' ''checkpoint.pkl'' = ''out/checkpoint.pkl''"
    "path_join ''out'' ''history.csv'' = ''out/history.csv''"
    by (simp_all add: str_def str_nat.simps digit_def path_join_def)
  have only: "a = 2" if "1 \<le> a \<and> a \<le> 3 \<and> (0::int) < 2 \<and> a mod 2 = 0" for a :: int
    using that by presburger
  note th = checkpoint_every_k_epochs [OF run3]
  from th [THEN conjunct1, rule_format, of 2] obtain tt_a sc_a t_a w_a m opt where
    a: "train_epochs example_env 3 ?trl ?vl 1 2 ''out'' [1..2]
       (Timer example_env, None, example_trainer, empty_world) = Inr (tt_a, sc_a, t_a, w_a)"
      "model t_a = Some m" "optimizer t_a = Some opt"
      "files w_a (path_join ''out'' (str 2 @ ''_epoch.pkl''))
         = Some (Pickle \<lparr>ckpt_model = m, ckpt_optimizer = opt, ckpt_history = history t_a\<rparr>)"
      "files w3 (path_join ''out'' (str 2 @ ''_epoch.pkl''))
         = files w_a (path_join ''out'' (str 2 @ ''_epoch.pkl''))"
    by auto
  from a(1) run2 have "t_a = t2" by simp
  with a t2 have e2: "files w3 ''out/2_epoch.pkl''
      = Some (Pickle \<lparr>ckpt_model = [(''w'', [1])], ckpt_optimizer = example_optimizer,
                      ckpt_history = Some rows2\<rparr>)"
    by (simp add: names)
  have other: "files w3 p = None"
    if "p \<noteq> ''out/history.csv''" "p \<noteq> ''out/2_epoch.pkl''" for p
  proof -
    have "files w3 p = files empty_world p"
    proof (rule th [THEN conjunct2, THEN conjunct1, rule_format], intro conjI allI impI)
      show "p \<noteq> path_join ''out'' ''history.csv''" using that(1) by (simp add: names)
      fix a :: int assume "1 \<le> a \<and> a \<le> 3 \<and> (0::int) < 2 \<and> a mod 2 = 0"
      then have "a = 2" by (rule only)
      then show "p \<noteq> path_join ''out'' (str a @ ''_epoch.pkl'')"
        using that(2) by (simp add: names)
    qed
    then show ?thesis by (simp add: empty_world_def)
  qed
  from th [THEN conjunct2, THEN conjunct2, THEN conjunct2, rule_format, OF refl,
      THEN conjunct2, rule_format, OF py]
  obtain m3 opt3 h3 where
    f: "t' = t3" "model t3 = Some m3" "optimizer t3 = Some opt3"
      "files w' (path_join ''out'' ''checkpoint.pkl'')
         = Some (Pickle \<lparr>ckpt_model = m3, ckpt_optimizer = opt3, ckpt_history = history t3\<rparr>)"
      "history t3 = Some h3" "files w' (path_join ''out'' ''history.csv'') = Some (Csv h3)"
      "\<forall>p. p \<noteq> path_join ''out'' ''history.csv'' \<and> p \<noteq> path_join ''out'' ''checkpoint.pkl''
          \<longrightarrow> files w' p = files w3 p"
    by blast
  have keep: "files w' p = files w3 p"
    if "p \<noteq> ''out/history.csv''" "p \<noteq> ''out/checkpoint.pkl''" for p
    using f(7) that by (simp add: names)
  have "files w' ''out/1_epoch.pkl'' = None"
    by (simp add: keep other)
  moreover have "files w' ''out/2_epoch.pkl''
      = Some (Pickle \<lparr>ckpt_model = [(''w'', [1])], ckpt_optimizer = example_optimizer,
                      ckpt_history = Some rows2\<rparr>)"
    by (simp add: keep e2)
  moreover have "files w' ''out/3_epoch.pkl'' = None"
    by (simp add: keep other)
  moreover have "files w' ''out/best.pkl'' = None"
    by (simp add: keep other)
  moreover have "files w' ''out/checkpoint.pkl''
      = Some (Pickle \<lparr>ckpt_model = [(''w'', [1])], ckpt_optimizer = example_optimizer,
                      ckpt_history = Some rows3\<rparr>)"
    using f(2-5) t3 by (simp add: names)
  moreover have "files w' ''out/history.csv'' = Some (Csv rows3)"
    using f(5,6) t3 by (simp add: names)
  ultimately show ?thesis using py t2(4) t3(4) by blast
qed

section \<open>Progress reports and the validation pass on the example\<close>




lemma batch_loop_reports:
  "batch_loop E ph ep v n i bs (t, w) = Inr (t', w') \<Longrightarrow>
   reported (stdout w')
     = reported (stdout w) @ filter (\<lambda>j. j mod v = 0) [i..i + int (length bs) - 1]"
proof (induction bs arbitrary: i t w)
  case Nil
  then show ?case by simp
next
  case (Cons b bs)
  obtain img y ident where b: "b = (img, y, ident)" by (cases b)
  from Cons.prems obtain l t1 where ob: "one_batch E ph img y t = Inr (l, t1)"
    by (auto simp: b split: sum.splits)
  from Cons.prems ob have v: "v \<noteq> 0" by (auto simp: b split: if_splits)
  have range: "[i..i + int (length bs)] = i # [i + 1..i + int (length bs)]"
    by (subst upto_rec1) simp_all
  show ?case
  proof (cases "i mod v = 0")
    case True
    obtain s tm where tc: "timer_call E (timer t1) i n = (s, tm)" by force
    from Cons.prems ob v True tc
    have "batch_loop E ph ep v n (i + 1) bs (t1\<lparr>timer := tm\<rparr>, print (Progress ph ep i n s) w)
        = Inr (t', w')" by (simp add: b)
    from Cons.IH [OF this] True show ?thesis
      by (simp add: range print_def reported_def)
  next
    case False
    from Cons.prems ob v False
    have "batch_loop E ph ep v n (i + 1) bs (t1, w) = Inr (t', w')" by (simp add: b)
    from Cons.IH [OF this] False show ?thesis by (simp add: range)
  qed
qed

text \<open>
  Claim C5 at its failing input. With \<open>verbose = 0\<close>, the default, and one training
  batch, \<open>train_one_epoch\<close> raises ZeroDivisionError at \<open>i % verbose\<close> instead of
  completing without a report; so does \<open>train\<close>. The lemma \<open>batch_loop_reports\<close> shows the
  rest of the claim: whenever a pass completes, the batches reported are exactly those
  whose index is a multiple of \<open>verbose\<close>.
\<close>

theorem progress_with_verbose_zero_raises:
  "train_one_epoch example_env 1 [([1], [1], [''a''])] [([1], [1], [''b''])] 0
     (example_trainer, empty_world) = Inl ZeroDivisionError
   \<and> train example_env 1 (\<lambda>e. [([1], [1], [''a''])]) (\<lambda>e. [([1], [1], [''b''])]) None 0 0 ''out''
       (example_trainer, empty_world) = Inl ZeroDivisionError"
  by (simp add: example_defs run_defs train_defs upto.simps)

text \<open>
  The groups are what \<open>reset_metrics\<close> keeps of the training pass, and they reach the
  validation values of a merged metric. The model is frozen and the validation batch is
  the same, with one element of ratio 1 and one of ratio 1.5. After a training batch of
  ratio 1 the two threshold accuracies have the same state, they are merged, and the
  validation pass reports under \<open>val/TA3\<close> the state of \<open>TA1\<close>, 1/2. After a training
  batch of ratio 1.5 their states differ, they stay apart, and \<open>val/TA3\<close> is 1. This is
  why the theorem for claim C8 asks for the same groups.
\<close>

lemma validation_depends_on_compute_groups:
  "(case train_one_epoch frozen_env 1 [([1], [1], [''a''])] [([2, 3], [2, 2], [''c''])] 1
           (grouped_trainer, empty_world) of
      Inl e \<Rightarrow> None
    | Inr (res, t, w) \<Rightarrow> Some (model t, map_of res ''val/TA1'', map_of res ''val/TA3''))
     = Some (Some [(''w'', [1])], Some (FloatCell (Float (1 / 2))), Some (FloatCell (Float (1 / 2))))
   \<and> (case train_one_epoch frozen_env 1 [([3], [2], [''b''])] [([2, 3], [2, 2], [''c''])] 1
           (grouped_trainer, empty_world) of
      Inl e \<Rightarrow> None
    | Inr (res, t, w) \<Rightarrow> Some (model t, map_of res ''val/TA1'', map_of res ''val/TA3''))
     = Some (Some [(''w'', [1])], Some (FloatCell (Float (1 / 2))), Some (FloatCell (Float 1)))"
  by (simp add: frozen_env_def grouped_trainer_def example_defs run_defs)


end
